theory Spec2Isabelle
  imports Main
begin

section \<open>Python strings and built-in conversions\<close>

text \<open>
  Strings are byte lists. \<open>str.lower\<close> and \<open>str.upper\<close> are modelled on ASCII letters,
  which is where the source uses them (\<open>yes\<close>, \<open>true\<close>, enum member names).
\<close>

definition ascii_lower :: "char \<Rightarrow> char" where
  "ascii_lower c =
     (case map_of (zip ''ABCDEFGHIJKLMNOPQRSTUVWXYZ'' ''abcdefghijklmnopqrstuvwxyz'') c of
        Some d \<Rightarrow> d | None \<Rightarrow> c)"

definition ascii_upper :: "char \<Rightarrow> char" where
  "ascii_upper c =
     (case map_of (zip ''abcdefghijklmnopqrstuvwxyz'' ''ABCDEFGHIJKLMNOPQRSTUVWXYZ'') c of
        Some d \<Rightarrow> d | None \<Rightarrow> c)"

definition lower :: "string \<Rightarrow> string" where
  "lower s = map ascii_lower s"

definition upper :: "string \<Rightarrow> string" where
  "upper s = map ascii_upper s"

text \<open>\<open>sep.join(xs)\<close>.\<close>

fun join :: "string \<Rightarrow> string list \<Rightarrow> string" where
  "join sep [] = []"
| "join sep [x] = x"
| "join sep (x # y # ys) = x @ sep @ join sep (y # ys)"

text \<open>\<open>a in b\<close> for two strings: \<open>a\<close> occurs in \<open>b\<close> as a contiguous substring.\<close>

fun starts_with :: "string \<Rightarrow> string \<Rightarrow> bool" where
  "starts_with [] ys = True"
| "starts_with (x # xs) [] = False"
| "starts_with (x # xs) (y # ys) = (x = y \<and> starts_with xs ys)"

fun str_in :: "string \<Rightarrow> string \<Rightarrow> bool" where
  "str_in a [] = (a = [])"
| "str_in a (y # ys) = (starts_with a (y # ys) \<or> str_in a ys)"

text \<open>\<open>s.replace(old, new)\<close> for a one-character \<open>old\<close>.\<close>

definition replace_char :: "char \<Rightarrow> string \<Rightarrow> string \<Rightarrow> string" where
  "replace_char old new s = concat (map (\<lambda>c. if c = old then new else [c]) s)"

text \<open>\<open>str(n)\<close> for an integer: decimal digits, with a minus sign when negative.\<close>

definition digit_char :: "nat \<Rightarrow> char" where
  "digit_char d = ''0123456789'' ! d"

function str_of_nat :: "nat \<Rightarrow> string" where
  "str_of_nat n = (if n < 10 then [digit_char n] else str_of_nat (n div 10) @ [digit_char (n mod 10)])"
  by pat_completeness auto
termination
  by (relation "measure id") auto

definition str_of_int :: "int \<Rightarrow> string" where
  "str_of_int i = (if i < 0 then CHR ''-'' # str_of_nat (nat (- i)) else str_of_nat (nat i))"

section \<open>Python values and terms\<close>

text \<open>
  A term is a Python value: an atom or a list of terms. The tokenizer produces symbols,
  strings, integers, floats and lists; \<open>to_sexpr\<close> appends whatever a field holds, so a
  term built by the encoder may also hold booleans, enum members, \<open>None\<close> and instances.
  Terms and field values therefore share one type. Floats are values of a type
  parameter: the engine only converts, compares and prints them.
\<close>

datatype prim_class = KiCadStr | KiCadInt | KiCadFloat

datatype 'f pyval =
    PNone
  | PBool bool
  | PInt int
  | PFloat 'f
  | PStr string
  | PSymbol string
  | PEnum string string string
  | PList "'f pyval list"
  | KiCadPrimitive prim_class string "'f pyval" bool
  | OptionalFlag string "string option" bool
  | OptionalSimpleFlag string bool
  | KiCadObject string "(string \<times> 'f pyval) list"

text \<open>
  \<open>PEnum c n v\<close> is the member \<open>n\<close> of the enum class \<open>c\<close>, with value \<open>v\<close>.
  \<open>KiCadPrimitive c token value required\<close>, \<open>OptionalFlag token token_value required\<close>
  and \<open>OptionalSimpleFlag token required\<close> are instances of the wrapper classes;
  \<open>KiCadObject c fields\<close> is an instance of the dataclass \<open>c\<close>, with its fields in
  declaration order.
\<close>

type_synonym 'f sexpr = "'f pyval"

datatype msg =
    MissingRequired "string list" string string nat
  | ExpectedGotList "string list" string string
  | CannotConvert "string list" string string string
  | InvalidEnum "string list" string string
  | RequiredTokenNotFound "string list" string
  | RequiredFieldNotFound "string list" string nat
  | FailedToParse "string list" string py_exc
  | TokenMismatch "string list" string string
  | RequiresCursor string
  | MustDefineTokenName string
  | UnknownFieldType
and py_exc =
    ValueError msg
  | BuiltinValueError
  | TypeError
  | KeyError
  | OverflowError
  | AttributeError
  | IndexError

text \<open>
  \<open>ValueError m\<close> is a \<open>ValueError\<close> raised by the source with the message \<open>m\<close> (the
  f-string's parts: the cursor's path first); \<open>BuiltinValueError\<close> is one raised by a
  built-in.
\<close>

subsection \<open>Declared types and classes\<close>

text \<open>
  The type hint of a dataclass field. \<open>TEnum c members\<close> is an enum class with its
  members as (name, value) pairs; \<open>TKiCadObject c\<close> is the \<open>KiCadObject\<close> subclass named
  \<open>c\<close>; \<open>TOptional t\<close> is \<open>Optional[t]\<close> and \<open>TList t\<close> is \<open>List[t]\<close>; \<open>TAny\<close> stands
  for every other hint (\<open>Any\<close>, a tuple type).
\<close>

datatype decl_type =
    TInt
  | TFloat
  | TBool
  | TStr
  | TEnum string "(string \<times> string) list"
  | TAny
  | TKiCadPrimitive prim_class
  | TOptionalFlag
  | TOptionalSimpleFlag
  | TKiCadObject string
  | TList decl_type
  | TOptional decl_type

text \<open>
  A dataclass field: \<open>field(default=v)\<close>, \<open>field(default_factory=f)\<close> with \<open>f()\<close> the
  value given, or no default; \<open>meta_required\<close> is \<open>metadata.get("required")\<close> when it is
  a boolean.
\<close>

datatype 'f field_default = NoDefault | Default "'f pyval" | DefaultFactory "'f pyval"

record 'f dataclass_field =
  df_name :: string
  df_type :: decl_type
  df_default :: "'f field_default"
  meta_required :: "bool option"

record 'f class_decl =
  class_token_name :: string
  legacy_token_names :: "string list"
  class_fields :: "'f dataclass_field list"

text \<open>
  The Python built-ins and the collaborators outside the engine are
  parameters of the model: \<open>int(s)\<close> and \<open>float(s)\<close> on a string, \<open>float(n)\<close> and
  \<open>int(x)\<close> between numbers, \<open>str(x)\<close> of a float, \<open>bool(x)\<close> and \<open>==\<close> on floats,
  \<open>str(x)\<close> of a list or of a dataclass instance, the tokenizer \<open>str_to_sexpr\<close>, and
  whether the tokenizer's \<open>Symbol\<close> class derives from \<open>str\<close>. The environment also
  holds the declared classes by name, and the class attribute \<open>__token_name__\<close> of
  \<open>OptionalFlag\<close> and \<open>OptionalSimpleFlag\<close>, which \<open>__post_init__\<close> overwrites with
  the token of the first instance created.
\<close>

record 'f pyenv =
  classes :: "string \<Rightarrow> 'f class_decl"
  optional_flag_token_name :: string
  optional_simple_flag_token_name :: string
  int_of_str :: "string \<Rightarrow> py_exc + int"
  float_of_str :: "string \<Rightarrow> py_exc + 'f"
  float_of_int :: "int \<Rightarrow> py_exc + 'f"
  int_of_float :: "'f \<Rightarrow> py_exc + int"
  str_of_float :: "'f \<Rightarrow> string"
  float_nonzero :: "'f \<Rightarrow> bool"
  float_eq :: "'f \<Rightarrow> 'f \<Rightarrow> bool"
  int_float_eq :: "int \<Rightarrow> 'f \<Rightarrow> bool"
  str_of_other :: "'f pyval \<Rightarrow> string"
  str_to_sexpr :: "string \<Rightarrow> py_exc + 'f sexpr"
  symbol_is_str :: bool

text \<open>
  \<open>str(x)\<close>. \<open>KiCadPrimitive.__str__\<close>, \<open>OptionalFlag.__str__\<close> and
  \<open>OptionalSimpleFlag.__str__\<close> are the source's; an enum member prints as
  \<open>Class.MEMBER\<close>.
\<close>

fun py_str :: "'f pyenv \<Rightarrow> 'f pyval \<Rightarrow> string" where
  "py_str env PNone = ''None''"
| "py_str env (PBool b) = (if b then ''True'' else ''False'')"
| "py_str env (PInt n) = str_of_int n"
| "py_str env (PFloat x) = str_of_float env x"
| "py_str env (PStr s) = s"
| "py_str env (PSymbol s) = s"
| "py_str env (PEnum c n v) = c @ ''.'' @ n"
| "py_str env (PList xs) = str_of_other env (PList xs)"
| "py_str env (KiCadPrimitive c t v r) = py_str env v"
| "py_str env (OptionalFlag t tv r) =
     (case tv of
        None \<Rightarrow> ''('' @ t @ '')''
      | Some v \<Rightarrow> if v \<noteq> [] then ''('' @ t @ '' '' @ v @ '')'' else ''('' @ t @ '')'')"
| "py_str env (OptionalSimpleFlag t r) = t"
| "py_str env (KiCadObject c fs) = str_of_other env (KiCadObject c fs)"

text \<open>\<open>isinstance(x, list)\<close>, \<open>isinstance(x, str)\<close>, \<open>isinstance(x, (str, Symbol))\<close>.\<close>

fun is_pylist :: "'f pyval \<Rightarrow> bool" where
  "is_pylist (PList xs) = True"
| "is_pylist x = False"

fun is_str :: "'f pyenv \<Rightarrow> 'f pyval \<Rightarrow> bool" where
  "is_str env (PStr s) = True"
| "is_str env (PSymbol s) = symbol_is_str env"
| "is_str env x = False"

fun is_str_or_symbol :: "'f pyval \<Rightarrow> bool" where
  "is_str_or_symbol (PStr s) = True"
| "is_str_or_symbol (PSymbol s) = True"
| "is_str_or_symbol x = False"

text \<open>
  \<open>a == b\<close>. Numbers compare by value across \<open>bool\<close>, \<open>int\<close> and \<open>float\<close>; lists
  compare element by element; a dataclass instance compares class and field tuple; the
  wrapper classes use their own \<open>__eq__\<close> (below); everything else is unequal.
\<close>

fun py_eq :: "'f pyenv \<Rightarrow> 'f pyval \<Rightarrow> 'f pyval \<Rightarrow> bool"
  and py_eq_list :: "'f pyenv \<Rightarrow> 'f pyval list \<Rightarrow> 'f pyval list \<Rightarrow> bool"
  and py_eq_fields :: "'f pyenv \<Rightarrow> (string \<times> 'f pyval) list \<Rightarrow> (string \<times> 'f pyval) list \<Rightarrow> bool"
where
  "py_eq env PNone b = (b = PNone)"
| "py_eq env (PBool x) b =
     (case b of PBool y \<Rightarrow> x = y
      | PInt n \<Rightarrow> (if x then 1 else 0) = n
      | PFloat y \<Rightarrow> int_float_eq env (if x then 1 else 0) y
      | _ \<Rightarrow> False)"
| "py_eq env (PInt m) b =
     (case b of PBool y \<Rightarrow> m = (if y then 1 else 0)
      | PInt n \<Rightarrow> m = n
      | PFloat y \<Rightarrow> int_float_eq env m y
      | _ \<Rightarrow> False)"
| "py_eq env (PFloat x) b =
     (case b of PBool y \<Rightarrow> int_float_eq env (if y then 1 else 0) x
      | PInt n \<Rightarrow> int_float_eq env n x
      | PFloat y \<Rightarrow> float_eq env x y
      | _ \<Rightarrow> False)"
| "py_eq env (PStr s) b =
     (case b of PStr t \<Rightarrow> s = t
      | PSymbol t \<Rightarrow> symbol_is_str env \<and> s = t
      | _ \<Rightarrow> False)"
| "py_eq env (PSymbol s) b =
     (case b of PStr t \<Rightarrow> symbol_is_str env \<and> s = t
      | PSymbol t \<Rightarrow> s = t
      | _ \<Rightarrow> False)"
| "py_eq env (PEnum c n v) b = (b = PEnum c n v)"
| "py_eq env (PList xs) b = (case b of PList ys \<Rightarrow> py_eq_list env xs ys | _ \<Rightarrow> False)"
| "py_eq env (KiCadPrimitive c t v r) b =
     (case b of KiCadPrimitive c' t' v' r' \<Rightarrow> c = c' \<and> t = t' \<and> py_eq env v v'
      | _ \<Rightarrow> False)"
| "py_eq env (OptionalFlag t tv r) b =
     (case b of OptionalFlag t' tv' r' \<Rightarrow> t = t' \<and> tv = tv' | _ \<Rightarrow> False)"
| "py_eq env (OptionalSimpleFlag t r) b =
     (case b of OptionalSimpleFlag t' r' \<Rightarrow> t = t' | _ \<Rightarrow> False)"
| "py_eq env (KiCadObject c fs) b =
     (case b of KiCadObject c' fs' \<Rightarrow> c = c' \<and> py_eq_fields env fs fs' | _ \<Rightarrow> False)"
| "py_eq_list env [] ys = (ys = [])"
| "py_eq_list env (x # xs) ys =
     (case ys of [] \<Rightarrow> False | y # ys' \<Rightarrow> py_eq env x y \<and> py_eq_list env xs ys')"
| "py_eq_fields env [] gs = (gs = [])"
| "py_eq_fields env (f # fs) gs =
     (case gs of [] \<Rightarrow> False | g # gs' \<Rightarrow> py_eq env (snd f) (snd g) \<and> py_eq_fields env fs gs')"

section \<open>Pretty printer\<close>

text \<open>\<open>KiCadObject._format_primitive_value\<close>.\<close>

definition quote_str :: "string \<Rightarrow> string" where
  "quote_str v =
     (if v = ''yes'' \<or> v = ''no'' then v
      else let escaped_value = replace_char (CHR ''\"'') [CHR 0x5C, CHR ''\"'']
                                 (replace_char (CHR 0x5C) [CHR 0x5C, CHR 0x5C] v)
           in [CHR ''\"''] @ escaped_value @ [CHR ''\"''])"

fun format_primitive_value :: "'f pyenv \<Rightarrow> 'f pyval \<Rightarrow> string" where
  "format_primitive_value env (PBool b) = (if b then ''yes'' else ''no'')"
| "format_primitive_value env (PEnum c n v) = v"
| "format_primitive_value env (PStr s) = quote_str s"
| "format_primitive_value env (PSymbol s) =
     (if symbol_is_str env then quote_str s else s)"
| "format_primitive_value env x = py_str env x"

text \<open>
  \<open>KiCadObject._format_sexpr_kicad_style\<close>. The test \<open>token_name in ("type")\<close> of the
  source is a substring test: \<open>("type")\<close> is the string \<open>"type"\<close>, not a tuple.
\<close>

definition format_children :: "'f pyenv \<Rightarrow> string \<Rightarrow> 'f pyval list \<Rightarrow> string list" where
  "format_children env token_name items =
     map (\<lambda>item. if str_in token_name ''type'' \<and> is_str env item
                  then py_str env item
                  else format_primitive_value env item)
         (filter (\<lambda>item. \<not> is_pylist item) items)"

fun format_sexpr_kicad_style :: "'f pyenv \<Rightarrow> 'f pyval \<Rightarrow> nat \<Rightarrow> string" where
  "format_sexpr_kicad_style env (PList []) indent_level = ''()''"
| "format_sexpr_kicad_style env (PList (h # rest)) indent_level =
     (let current_indent = replicate indent_level (CHR 0x09);
          token_name = py_str env h
      in if rest = [] then current_indent @ ''('' @ token_name @ '')''
         else
           let primitive_values = format_children env token_name rest;
               nested_lists = filter is_pylist rest
           in if nested_lists = [] \<and> length (h # rest) \<le> 4
              then current_indent @ ''('' @ join '' '' (token_name # primitive_values) @ '')''
              else
                let primitive_part =
                      (if primitive_values \<noteq> [] then '' '' @ join '' '' primitive_values else '''');
                    lines = [current_indent @ ''('' @ token_name @ primitive_part]
                            @ map (\<lambda>nested_item. format_sexpr_kicad_style env nested_item (indent_level + 1))
                                  nested_lists
                            @ [current_indent @ '')'']
                in join [CHR 0x0A] lines)"
| "format_sexpr_kicad_style env x indent_level = format_primitive_value env x"

section \<open>Python operations the engine applies to a term\<close>

text \<open>\<open>bool(x)\<close>, with \<open>KiCadPrimitive.__bool__\<close> and \<open>OptionalFlag.__bool__\<close>.\<close>

fun py_truthy :: "'f pyenv \<Rightarrow> 'f pyval \<Rightarrow> bool" where
  "py_truthy env PNone = False"
| "py_truthy env (PBool b) = b"
| "py_truthy env (PInt n) = (n \<noteq> 0)"
| "py_truthy env (PFloat x) = float_nonzero env x"
| "py_truthy env (PStr s) = (s \<noteq> [])"
| "py_truthy env (PSymbol s) = (if symbol_is_str env then s \<noteq> [] else True)"
| "py_truthy env (PEnum c n v) = True"
| "py_truthy env (PList xs) = (xs \<noteq> [])"
| "py_truthy env (KiCadPrimitive c t v r) = py_truthy env v"
| "py_truthy env (OptionalFlag t tv r) =
     (case tv of
        None \<Rightarrow> True
      | Some v \<Rightarrow> if v \<noteq> [] then lower v \<in> {''yes'', ''true'', ''1''} else True)"
| "py_truthy env (OptionalSimpleFlag t r) = True"
| "py_truthy env (KiCadObject c fs) = True"

text \<open>
  The elements of a sequence: a list has its elements, a string has its characters as
  one-character strings, anything else is not a sequence (\<open>TypeError\<close>).
\<close>

fun py_seq :: "'f pyenv \<Rightarrow> 'f pyval \<Rightarrow> 'f pyval list option" where
  "py_seq env (PList xs) = Some xs"
| "py_seq env (PStr s) = Some (map (\<lambda>c. PStr [c]) s)"
| "py_seq env (PSymbol s) = (if symbol_is_str env then Some (map (\<lambda>c. PStr [c]) s) else None)"
| "py_seq env x = None"

text \<open>\<open>len(x)\<close>, \<open>x[i]\<close> and the elements of \<open>x[1:]\<close>.\<close>

definition py_len :: "'f pyenv \<Rightarrow> 'f pyval \<Rightarrow> py_exc + nat" where
  "py_len env x = (case py_seq env x of None \<Rightarrow> Inl TypeError | Some xs \<Rightarrow> Inr (length xs))"

definition py_getitem :: "'f pyenv \<Rightarrow> 'f pyval \<Rightarrow> nat \<Rightarrow> py_exc + 'f pyval" where
  "py_getitem env x i =
     (case py_seq env x of
        None \<Rightarrow> Inl TypeError
      | Some xs \<Rightarrow> if i < length xs then Inr (xs ! i) else Inl IndexError)"

definition py_items_from1 :: "'f pyenv \<Rightarrow> 'f pyval \<Rightarrow> py_exc + 'f pyval list" where
  "py_items_from1 env x = (case py_seq env x of None \<Rightarrow> Inl TypeError | Some xs \<Rightarrow> Inr (drop 1 xs))"

text \<open>\<open>int(x)\<close> and \<open>float(x)\<close>.\<close>

fun py_int :: "'f pyenv \<Rightarrow> 'f pyval \<Rightarrow> py_exc + int" where
  "py_int env (PBool b) = Inr (if b then 1 else 0)"
| "py_int env (PInt n) = Inr n"
| "py_int env (PFloat x) = int_of_float env x"
| "py_int env (PStr s) = int_of_str env s"
| "py_int env (PSymbol s) = (if symbol_is_str env then int_of_str env s else Inl TypeError)"
| "py_int env x = Inl TypeError"

fun py_float :: "'f pyenv \<Rightarrow> 'f pyval \<Rightarrow> py_exc + 'f" where
  "py_float env (PBool b) = float_of_int env (if b then 1 else 0)"
| "py_float env (PInt n) = float_of_int env n"
| "py_float env (PFloat x) = Inr x"
| "py_float env (PStr s) = float_of_str env s"
| "py_float env (PSymbol s) = (if symbol_is_str env then float_of_str env s else Inl TypeError)"
| "py_float env x = Inl TypeError"

text \<open>\<open>enum_class(v)\<close> looks a member up by value, \<open>enum_class[n]\<close> by name.\<close>

definition enum_by_value :: "string \<Rightarrow> (string \<times> string) list \<Rightarrow> string \<Rightarrow> py_exc + 'f pyval" where
  "enum_by_value c members v =
     (case find (\<lambda>m. snd m = v) members of
        None \<Rightarrow> Inl BuiltinValueError
      | Some m \<Rightarrow> Inr (PEnum c (fst m) (snd m)))"

definition enum_by_name :: "string \<Rightarrow> (string \<times> string) list \<Rightarrow> string \<Rightarrow> py_exc + 'f pyval" where
  "enum_by_name c members n =
     (case find (\<lambda>m. fst m = n) members of
        None \<Rightarrow> Inl KeyError
      | Some m \<Rightarrow> Inr (PEnum c (fst m) (snd m)))"

text \<open>The exceptions an \<open>except (ValueError, TypeError)\<close> clause catches.\<close>

fun is_value_or_type_error :: "py_exc \<Rightarrow> bool" where
  "is_value_or_type_error (ValueError m) = True"
| "is_value_or_type_error BuiltinValueError = True"
| "is_value_or_type_error TypeError = True"
| "is_value_or_type_error e = False"

fun is_value_error :: "py_exc \<Rightarrow> bool" where
  "is_value_error (ValueError m) = True"
| "is_value_error BuiltinValueError = True"
| "is_value_error e = False"

text \<open>\<open>_convert_to_type\<close>.\<close>

definition bool_of_text :: "string \<Rightarrow> bool" where
  "bool_of_text s = (lower s \<in> {''yes'', ''true'', ''1''})"

fun convert_to_type :: "'f pyenv \<Rightarrow> 'f pyval \<Rightarrow> decl_type \<Rightarrow> py_exc + 'f pyval" where
  "convert_to_type env v (TEnum c members) =
     (case enum_by_value c members (py_str env v) of
        Inr m \<Rightarrow> Inr m
      | Inl e \<Rightarrow> if is_value_error e then enum_by_name c members (upper (py_str env v)) else Inl e)"
| "convert_to_type env v TInt = map_sum id PInt (py_int env v)"
| "convert_to_type env v TFloat = map_sum id PFloat (py_float env v)"
| "convert_to_type env v TBool = Inr (PBool (bool_of_text (py_str env v)))"
| "convert_to_type env v TStr = Inr (PStr (py_str env v))"
| "convert_to_type env v t = Inr v"

section \<open>Parse cursor\<close>

datatype ParseStrictness = STRICT | SILENT | FAILSAFE

text \<open>
  Modelled from the spec: the \<open>SExprParser\<close> of \<open>sexpr_parser.py\<close>, the consumption
  tracker of one list. It holds the set of used positional indices, empty when it is
  created; \<open>mark_used\<close> adds an index and \<open>used_indices\<close> reads the set. The field
  \<open>parser\<close> of a cursor is that set.
\<close>

record 'f ParseCursor =
  sexpr :: "'f sexpr"
  parser :: "nat set"
  path :: "string list"
  strictness :: ParseStrictness

definition mark_used :: "nat \<Rightarrow> 'f ParseCursor \<Rightarrow> 'f ParseCursor" where
  "mark_used idx cur = cur\<lparr>parser := insert idx (parser cur)\<rparr>"

definition enter :: "'f ParseCursor \<Rightarrow> 'f sexpr \<Rightarrow> string \<Rightarrow> 'f ParseCursor" where
  "enter cur sx nm = \<lparr>sexpr = sx, parser = {}, path = path cur @ [nm], strictness = strictness cur\<rparr>"

text \<open>
  A parse step runs on a cursor and the warnings logged so far (\<open>logging.warning\<close>), and
  returns its value or the exception raised, with the cursor and the log as they are
  then: what was marked and logged before an exception stays marked and logged.
\<close>

type_synonym ('f, 'a) step = "(py_exc + 'a) \<times> 'f ParseCursor \<times> msg list"

definition log_issue :: "'f ParseCursor \<Rightarrow> msg \<Rightarrow> msg list \<Rightarrow> (py_exc + unit) \<times> msg list" where
  "log_issue cur message lg =
     (case strictness cur of
        STRICT \<Rightarrow> (Inl (ValueError message), lg)
      | FAILSAFE \<Rightarrow> (Inr (), lg @ [message])
      | SILENT \<Rightarrow> (Inr (), lg))"

text \<open>
  \<open>issue_then_none\<close> is the source's \<open>self.log_issue(...); return None\<close>, and
  \<open>issue_if_then_none b\<close> its \<open>if b: self.log_issue(...)\<close> followed by \<open>return None\<close>.
\<close>

definition issue_then_none :: "'f ParseCursor \<Rightarrow> msg \<Rightarrow> msg list \<Rightarrow> ('f, 'f pyval) step" where
  "issue_then_none cur message lg =
     (case log_issue cur message lg of
        (Inl e, lg') \<Rightarrow> (Inl e, cur, lg')
      | (Inr u, lg') \<Rightarrow> (Inr PNone, cur, lg'))"

definition issue_if_then_none :: "bool \<Rightarrow> 'f ParseCursor \<Rightarrow> msg \<Rightarrow> msg list \<Rightarrow> ('f, 'f pyval) step" where
  "issue_if_then_none b cur message lg =
     (if b then issue_then_none cur message lg else (Inr PNone, cur, lg))"

definition get_value_at_index ::
  "'f pyenv \<Rightarrow> nat \<Rightarrow> string \<Rightarrow> string \<Rightarrow> bool \<Rightarrow> 'f ParseCursor \<Rightarrow> msg list \<Rightarrow> ('f, 'f pyval) step" where
  "get_value_at_index env index field_name type_name required cur lg =
     (case py_len env (sexpr cur) of
        Inl e \<Rightarrow> (Inl e, cur, lg)
      | Inr n \<Rightarrow>
          if index \<ge> n
          then issue_if_then_none required cur (MissingRequired (path cur) type_name field_name index) lg
          else
            (case py_getitem env (sexpr cur) index of
               Inl e \<Rightarrow> (Inl e, cur, lg)
             | Inr v \<Rightarrow>
                 if is_pylist v
                 then issue_if_then_none required cur (ExpectedGotList (path cur) type_name field_name) lg
                 else (Inr v, mark_used index cur, lg)))"

definition parse_int ::
  "'f pyenv \<Rightarrow> nat \<Rightarrow> string \<Rightarrow> bool \<Rightarrow> 'f ParseCursor \<Rightarrow> msg list \<Rightarrow> ('f, 'f pyval) step" where
  "parse_int env index field_name required cur lg =
     (case get_value_at_index env index field_name ''int'' required cur lg of
        (Inl e, cur', lg') \<Rightarrow> (Inl e, cur', lg')
      | (Inr v, cur', lg') \<Rightarrow>
          if v = PNone then (Inr PNone, cur', lg')
          else
            (case py_int env v of
               Inr n \<Rightarrow> (Inr (PInt n), cur', lg')
             | Inl e \<Rightarrow>
                 if is_value_or_type_error e
                 then issue_then_none cur' (CannotConvert (path cur') (py_str env v) ''int'' field_name) lg'
                 else (Inl e, cur', lg')))"

definition parse_float ::
  "'f pyenv \<Rightarrow> nat \<Rightarrow> string \<Rightarrow> bool \<Rightarrow> 'f ParseCursor \<Rightarrow> msg list \<Rightarrow> ('f, 'f pyval) step" where
  "parse_float env index field_name required cur lg =
     (case get_value_at_index env index field_name ''float'' required cur lg of
        (Inl e, cur', lg') \<Rightarrow> (Inl e, cur', lg')
      | (Inr v, cur', lg') \<Rightarrow>
          if v = PNone then (Inr PNone, cur', lg')
          else
            (case py_float env v of
               Inr x \<Rightarrow> (Inr (PFloat x), cur', lg')
             | Inl e \<Rightarrow>
                 if is_value_or_type_error e
                 then issue_then_none cur' (CannotConvert (path cur') (py_str env v) ''float'' field_name) lg'
                 else (Inl e, cur', lg')))"

definition parse_str ::
  "'f pyenv \<Rightarrow> nat \<Rightarrow> string \<Rightarrow> bool \<Rightarrow> 'f ParseCursor \<Rightarrow> msg list \<Rightarrow> ('f, 'f pyval) step" where
  "parse_str env index field_name required cur lg =
     (case get_value_at_index env index field_name ''str'' required cur lg of
        (Inl e, cur', lg') \<Rightarrow> (Inl e, cur', lg')
      | (Inr v, cur', lg') \<Rightarrow>
          if v = PNone then (Inr PNone, cur', lg')
          else (Inr (PStr (py_str env v)), cur', lg'))"

definition parse_bool ::
  "'f pyenv \<Rightarrow> nat \<Rightarrow> string \<Rightarrow> bool \<Rightarrow> 'f ParseCursor \<Rightarrow> msg list \<Rightarrow> ('f, 'f pyval) step" where
  "parse_bool env index field_name required cur lg =
     (case get_value_at_index env index field_name ''bool'' required cur lg of
        (Inl e, cur', lg') \<Rightarrow> (Inl e, cur', lg')
      | (Inr v, cur', lg') \<Rightarrow>
          if v = PNone then (Inr PNone, cur', lg')
          else (Inr (PBool (bool_of_text (py_str env v))), cur', lg'))"

definition parse_enum ::
  "'f pyenv \<Rightarrow> nat \<Rightarrow> string \<Rightarrow> string \<Rightarrow> (string \<times> string) list \<Rightarrow> bool \<Rightarrow>
   'f ParseCursor \<Rightarrow> msg list \<Rightarrow> ('f, 'f pyval) step" where
  "parse_enum env index field_name c members required cur lg =
     (case get_value_at_index env index field_name ''enum'' required cur lg of
        (Inl e, cur', lg') \<Rightarrow> (Inl e, cur', lg')
      | (Inr v, cur', lg') \<Rightarrow>
          if v = PNone then (Inr PNone, cur', lg')
          else
            (case enum_by_value c members (py_str env v) of
               Inr m \<Rightarrow> (Inr m, cur', lg')
             | Inl e \<Rightarrow>
                 if is_value_error e
                 then (case enum_by_name c members (upper (py_str env v)) of
                         Inr m \<Rightarrow> (Inr m, cur', lg')
                       | Inl e' \<Rightarrow>
                           if e' = KeyError
                           then issue_then_none cur' (InvalidEnum (path cur') (py_str env v) field_name) lg'
                           else (Inl e', cur', lg'))
                 else (Inl e, cur', lg')))"

text \<open>
  \<open>find_token\<close>: the scan is the source's \<open>for\<close> loop over \<open>enumerate(self.sexpr[1:],
  start=1)\<close>; it yields the index and the match of the first element that matches.
\<close>

fun find_token_scan :: "'f pyenv \<Rightarrow> string \<Rightarrow> 'f pyval list \<Rightarrow> nat \<Rightarrow> (nat \<times> 'f pyval list) option" where
  "find_token_scan env tn [] idx = None"
| "find_token_scan env tn (item # rest) idx =
     (if (case item of PList (h # t) \<Rightarrow> py_str env h = tn | _ \<Rightarrow> False)
      then (case item of PList xs \<Rightarrow> Some (idx, xs) | _ \<Rightarrow> None)
      else if is_str_or_symbol item \<and> py_str env item = tn then Some (idx, [item])
      else find_token_scan env tn rest (idx + 1))"

text \<open>
  The result of \<open>find_token\<close> is always a list; the model returns its elements: those of
  the matching nested list, the matching atom alone, or none.
\<close>

definition find_token :: "'f pyenv \<Rightarrow> string \<Rightarrow> 'f ParseCursor \<Rightarrow> (py_exc + 'f pyval list) \<times> 'f ParseCursor" where
  "find_token env tn cur =
     (case py_items_from1 env (sexpr cur) of
        Inl e \<Rightarrow> (Inl e, cur)
      | Inr items \<Rightarrow>
          (case find_token_scan env tn items 1 of
             None \<Rightarrow> (Inr [], cur)
           | Some (idx, found) \<Rightarrow> (Inr found, mark_used idx cur)))"

section \<open>Primitive and flag wrappers\<close>

fun base_type :: "prim_class \<Rightarrow> decl_type" where
  "base_type KiCadStr = TStr"
| "base_type KiCadInt = TInt"
| "base_type KiCadFloat = TFloat"

text \<open>
  \<open>KiCadPrimitive.from_sexpr\<close>: the instance is built with the class default
  \<open>required = True\<close>.
\<close>

definition KiCadPrimitive_from_sexpr ::
  "'f pyenv \<Rightarrow> prim_class \<Rightarrow> 'f sexpr \<Rightarrow> 'f ParseCursor option \<Rightarrow> py_exc + 'f pyval" where
  "KiCadPrimitive_from_sexpr env cls sx cursor =
     (case cursor of
        None \<Rightarrow> Inl (ValueError (RequiresCursor ''KiCadPrimitive''))
      | Some cur \<Rightarrow>
          let (token, v) =
                (case sx of
                   PList xs \<Rightarrow> if length xs \<ge> 2 then (py_str env (xs ! 0), xs ! 1) else ('''', PNone)
                 | _ \<Rightarrow> ('''', sx))
          in if v = PNone then Inr PNone
             else (case convert_to_type env v (base_type cls) of
                     Inr converted \<Rightarrow> Inr (KiCadPrimitive cls token converted True)
                   | Inl e \<Rightarrow> if is_value_or_type_error e then Inr PNone else Inl e))"

text \<open>\<open>OptionalFlag.from_sexpr\<close>, with the class default \<open>required = False\<close>.\<close>

definition OptionalFlag_from_sexpr ::
  "'f pyenv \<Rightarrow> 'f sexpr \<Rightarrow> 'f ParseCursor option \<Rightarrow> py_exc + 'f pyval" where
  "OptionalFlag_from_sexpr env sx cursor =
     (case cursor of
        None \<Rightarrow> Inl (ValueError (RequiresCursor ''OptionalFlag''))
      | Some cur \<Rightarrow>
          (case sx of
             PList (h # t) \<Rightarrow>
               Inr (OptionalFlag (py_str env h)
                      (case t of [] \<Rightarrow> None | v # t' \<Rightarrow> Some (py_str env v)) False)
           | _ \<Rightarrow> if is_str_or_symbol sx then Inr (OptionalFlag (py_str env sx) None False)
                  else Inr PNone))"

definition OptionalSimpleFlag_from_sexpr ::
  "'f pyenv \<Rightarrow> 'f sexpr \<Rightarrow> 'f ParseCursor option \<Rightarrow> py_exc + 'f pyval" where
  "OptionalSimpleFlag_from_sexpr env sx cursor =
     (case cursor of
        None \<Rightarrow> Inl (ValueError (RequiresCursor ''OptionalSimpleFlag''))
      | Some cur \<Rightarrow>
          if is_str_or_symbol sx \<and> \<not> is_pylist sx then Inr (OptionalSimpleFlag (py_str env sx) False)
          else Inr PNone)"

text \<open>\<open>to_sexpr\<close> of the three wrappers.\<close>

definition KiCadPrimitive_to_sexpr :: "string \<Rightarrow> 'f pyval \<Rightarrow> 'f sexpr" where
  "KiCadPrimitive_to_sexpr token v = (if token \<noteq> [] then PList [PStr token, v] else v)"

definition OptionalFlag_to_sexpr :: "string \<Rightarrow> string option \<Rightarrow> 'f sexpr" where
  "OptionalFlag_to_sexpr token token_value =
     (case token_value of
        None \<Rightarrow> PList [PStr token]
      | Some v \<Rightarrow> if v \<noteq> [] then PList [PStr token, PStr v] else PList [PStr token])"

definition OptionalSimpleFlag_to_sexpr :: "string \<Rightarrow> 'f sexpr" where
  "OptionalSimpleFlag_to_sexpr token = PStr token"

text \<open>
  \<open>KiCadPrimitive.__eq__(self, other)\<close>, for an instance \<open>self\<close> of class \<open>c\<close> with
  the given token, value and required flag.
\<close>

definition KiCadPrimitive_eq ::
  "'f pyenv \<Rightarrow> prim_class \<Rightarrow> string \<Rightarrow> 'f pyval \<Rightarrow> bool \<Rightarrow> 'f pyval \<Rightarrow> bool" where
  "KiCadPrimitive_eq env c token v required other =
     (case other of
        KiCadPrimitive c' token' v' required' \<Rightarrow> c = c' \<and> token = token' \<and> py_eq env v v'
      | _ \<Rightarrow> False)"

section \<open>Field classification\<close>

datatype FieldType = PRIMITIVE | SEXPR_BASE

record FieldInfo =
  name :: string
  field_type :: FieldType
  inner_type :: decl_type
  is_optional :: bool
  is_list :: bool
  token_name :: "string option"
  position_index :: nat

definition can_self_parse :: "FieldInfo \<Rightarrow> bool" where
  "can_self_parse fi = (field_type fi = SEXPR_BASE)"

text \<open>\<open>if field_info.token_name\<close>: the token is neither \<open>None\<close> nor empty.\<close>

definition has_token :: "FieldInfo \<Rightarrow> bool" where
  "has_token fi = (case token_name fi of None \<Rightarrow> False | Some s \<Rightarrow> s \<noteq> [])"

definition the_token :: "FieldInfo \<Rightarrow> string" where
  "the_token fi = (case token_name fi of None \<Rightarrow> [] | Some s \<Rightarrow> s)"

text \<open>\<open>issubclass(t, SExpressionBase)\<close> and the class attribute \<open>t.__token_name__\<close>.\<close>

fun is_sexpression_base :: "decl_type \<Rightarrow> bool" where
  "is_sexpression_base (TKiCadPrimitive c) = True"
| "is_sexpression_base TOptionalFlag = True"
| "is_sexpression_base TOptionalSimpleFlag = True"
| "is_sexpression_base (TKiCadObject c) = True"
| "is_sexpression_base t = False"

fun class_level_token :: "'f pyenv \<Rightarrow> decl_type \<Rightarrow> string" where
  "class_level_token env (TKiCadObject c) = class_token_name (classes env c)"
| "class_level_token env TOptionalFlag = optional_flag_token_name env"
| "class_level_token env TOptionalSimpleFlag = optional_simple_flag_token_name env"
| "class_level_token env t = []"

text \<open>
  What \<open>_classify_field\<close> reads from the instance a \<open>default_factory\<close> returns:
  \<open>hasattr(d, "required") and not d.required\<close>, and \<open>getattr(d, "token", None)\<close>.
\<close>

fun default_not_required :: "'f pyenv \<Rightarrow> 'f pyval \<Rightarrow> bool" where
  "default_not_required env (KiCadPrimitive c t v r) = (\<not> r)"
| "default_not_required env (OptionalFlag t tv r) = (\<not> r)"
| "default_not_required env (OptionalSimpleFlag t r) = (\<not> r)"
| "default_not_required env (KiCadObject c fs) =
     (case map_of fs ''required'' of None \<Rightarrow> False | Some x \<Rightarrow> \<not> py_truthy env x)"
| "default_not_required env d = False"

fun getattr_token :: "'f pyval \<Rightarrow> string option" where
  "getattr_token (KiCadPrimitive c t v r) = Some t"
| "getattr_token (OptionalFlag t tv r) = Some t"
| "getattr_token (OptionalSimpleFlag t r) = Some t"
| "getattr_token (KiCadObject c fs) =
     (case map_of fs ''token'' of Some (PStr s) \<Rightarrow> Some s | _ \<Rightarrow> None)"
| "getattr_token d = None"

fun strip_optional :: "decl_type \<Rightarrow> decl_type" where
  "strip_optional (TOptional t) = t"
| "strip_optional t = t"

definition classify_field ::
  "'f pyenv \<Rightarrow> string \<Rightarrow> decl_type \<Rightarrow> nat \<Rightarrow> 'f dataclass_field \<Rightarrow> FieldInfo" where
  "classify_field env nm hint position dataclass_field =
     (let opt_hint = (case hint of TOptional t \<Rightarrow> True | _ \<Rightarrow> False);
          opt_meta = (opt_hint \<or> meta_required dataclass_field = Some False);
          opt = (opt_meta \<or>
                 (case df_default dataclass_field of
                    DefaultFactory d \<Rightarrow> default_not_required env d
                  | _ \<Rightarrow> False));
          inner = strip_optional hint
      in case inner of
           TList element_type \<Rightarrow>
             \<lparr>name = nm,
              field_type = (if is_sexpression_base element_type then SEXPR_BASE else PRIMITIVE),
              inner_type = element_type,
              is_optional = False,
              is_list = True,
              token_name = (if is_sexpression_base element_type
                            then Some (class_level_token env element_type) else None),
              position_index = position\<rparr>
         | _ \<Rightarrow>
             if is_sexpression_base inner
             then \<lparr>name = nm,
                   field_type = SEXPR_BASE,
                   inner_type = inner,
                   is_optional = opt,
                   is_list = False,
                   token_name =
                     (if (case inner of TKiCadPrimitive c \<Rightarrow> True | TOptionalFlag \<Rightarrow> True | _ \<Rightarrow> False)
                      then (case df_default dataclass_field of
                              DefaultFactory d \<Rightarrow> getattr_token d
                            | _ \<Rightarrow> None)
                      else Some (class_level_token env inner)),
                   position_index = position\<rparr>
             else \<lparr>name = nm,
                   field_type = PRIMITIVE,
                   inner_type = inner,
                   is_optional = opt,
                   is_list = False,
                   token_name = None,
                   position_index = position\<rparr>)"

text \<open>
  \<open>_classify_fields\<close>: the loop over \<open>fields(cls)\<close> with its running \<open>position_index\<close>.
  The cache only stores the result.
\<close>

fun classify_fields_from :: "'f pyenv \<Rightarrow> 'f dataclass_field list \<Rightarrow> nat \<Rightarrow> FieldInfo list" where
  "classify_fields_from env [] position = []"
| "classify_fields_from env (f # fs) position =
     (if starts_with ''_'' (df_name f) then classify_fields_from env fs position
      else
        let field_info = classify_field env (df_name f) (df_type f) position f
        in field_info #
           classify_fields_from env fs
             (if \<not> (field_type field_info = SEXPR_BASE \<and> inner_type field_info = TOptionalSimpleFlag)
              then position + 1 else position))"

definition classify_fields :: "'f pyenv \<Rightarrow> string \<Rightarrow> FieldInfo list" where
  "classify_fields env c = classify_fields_from env (class_fields (classes env c)) 0"

section \<open>Binding engine: decode\<close>

text \<open>
  The positional part of \<open>_parse_primitive_field\<close>: the enum test, then the
  \<open>parser_map\<close> with \<open>parse_str\<close> as its default.
\<close>

definition parse_positional ::
  "'f pyenv \<Rightarrow> FieldInfo \<Rightarrow> 'f ParseCursor \<Rightarrow> msg list \<Rightarrow> ('f, 'f pyval) step" where
  "parse_positional env fi cur lg =
     (let index = position_index fi + 1;
          required = (\<not> is_optional fi)
      in case inner_type fi of
           TEnum c members \<Rightarrow> parse_enum env index (name fi) c members required cur lg
         | TInt \<Rightarrow> parse_int env index (name fi) required cur lg
         | TFloat \<Rightarrow> parse_float env index (name fi) required cur lg
         | TBool \<Rightarrow> parse_bool env index (name fi) required cur lg
         | TStr \<Rightarrow> parse_str env index (name fi) required cur lg
         | _ \<Rightarrow> parse_str env index (name fi) required cur lg)"

definition parse_primitive_field ::
  "'f pyenv \<Rightarrow> FieldInfo \<Rightarrow> 'f ParseCursor \<Rightarrow> msg list \<Rightarrow> ('f, 'f pyval) step" where
  "parse_primitive_field env fi cur lg =
     (if has_token fi
      then (case find_token env (the_token fi) cur of
              (Inl e, cur1) \<Rightarrow> (Inl e, cur1, lg)
            | (Inr named_sexpr, cur1) \<Rightarrow>
                if length named_sexpr \<ge> 2
                then (convert_to_type env (named_sexpr ! 1) (inner_type fi), cur1, lg)
                else
                  (case (if \<not> is_optional fi \<and> named_sexpr = []
                         then log_issue cur1 (RequiredTokenNotFound (path cur1) (the_token fi)) lg
                         else (Inr (), lg)) of
                     (Inl e, lg1) \<Rightarrow> (Inl e, cur1, lg1)
                   | (Inr u, lg1) \<Rightarrow>
                       if named_sexpr = [] then (Inr PNone, cur1, lg1)
                       else parse_positional env fi cur1 lg1))
      else parse_positional env fi cur lg)"

text \<open>
  A nested decode is the call \<open>field_info.inner_type.from_sexpr(item, cursor.strictness,
  nested_cursor)\<close>: it gets the element type, the element, the nested cursor and the
  log, and returns a value or an exception, and the log.
\<close>

type_synonym 'f decoder =
  "decl_type \<Rightarrow> 'f sexpr \<Rightarrow> 'f ParseCursor \<Rightarrow> msg list \<Rightarrow> (py_exc + 'f pyval) \<times> msg list"

definition element_path :: "FieldInfo \<Rightarrow> 'f pyval list \<Rightarrow> string" where
  "element_path fi result = name fi @ ''['' @ str_of_nat (length result) @ '']''"

text \<open>
  \<open>_parse_list_field\<close>, first branch: the loop over \<open>enumerate(cursor.sexpr[1:],
  start=1)\<close> for a self-parsing element type with a token.
\<close>

fun parse_list_known ::
  "'f decoder \<Rightarrow> 'f pyenv \<Rightarrow> FieldInfo \<Rightarrow> 'f pyval list \<Rightarrow> nat \<Rightarrow> 'f pyval list \<Rightarrow>
   'f ParseCursor \<Rightarrow> msg list \<Rightarrow> ('f, 'f pyval list) step" where
  "parse_list_known dec env fi [] idx result cur lg = (Inr result, cur, lg)"
| "parse_list_known dec env fi (item # rest) idx result cur lg =
     (if (case item of PList (h # t) \<Rightarrow> py_str env h = the_token fi | _ \<Rightarrow> False)
      then
        let cur1 = mark_used idx cur;
            nested_cursor = enter cur1 item (element_path fi result)
        in (case dec (inner_type fi) item nested_cursor lg of
              (Inl e, lg1) \<Rightarrow> (Inl e, cur1, lg1)
            | (Inr element, lg1) \<Rightarrow>
                parse_list_known dec env fi rest (idx + 1)
                  (if element \<noteq> PNone then result @ [element] else result) cur1 lg1)
      else parse_list_known dec env fi rest (idx + 1) result cur lg)"

text \<open>Second branch: a self-parsing element type without a token.\<close>

fun parse_list_unknown ::
  "'f decoder \<Rightarrow> 'f pyenv \<Rightarrow> FieldInfo \<Rightarrow> 'f pyval list \<Rightarrow> nat \<Rightarrow> 'f pyval list \<Rightarrow>
   'f ParseCursor \<Rightarrow> msg list \<Rightarrow> ('f, 'f pyval list) step" where
  "parse_list_unknown dec env fi [] idx result cur lg = (Inr result, cur, lg)"
| "parse_list_unknown dec env fi (item # rest) idx result cur lg =
     (if is_pylist item \<and> idx \<notin> parser cur
      then
        let nested_cursor = enter cur item (element_path fi result)
        in (case dec (inner_type fi) item nested_cursor lg of
              (Inl e, lg1) \<Rightarrow>
                if is_value_or_type_error e
                then parse_list_unknown dec env fi rest (idx + 1) result cur lg1
                else (Inl e, cur, lg1)
            | (Inr element, lg1) \<Rightarrow>
                if element \<noteq> PNone
                then parse_list_unknown dec env fi rest (idx + 1) (result @ [element])
                       (mark_used idx cur) lg1
                else parse_list_unknown dec env fi rest (idx + 1) result cur lg1)
      else parse_list_unknown dec env fi rest (idx + 1) result cur lg)"

definition parse_list_field ::
  "'f decoder \<Rightarrow> 'f pyenv \<Rightarrow> FieldInfo \<Rightarrow> 'f ParseCursor \<Rightarrow> msg list \<Rightarrow> ('f, 'f pyval) step" where
  "parse_list_field dec env fi cur lg =
     (if can_self_parse fi \<and> has_token fi
      then (case py_items_from1 env (sexpr cur) of
              Inl e \<Rightarrow> (Inl e, cur, lg)
            | Inr items \<Rightarrow>
                (case parse_list_known dec env fi items 1 [] cur lg of
                   (r, cur', lg') \<Rightarrow> (map_sum id PList r, cur', lg')))
      else if can_self_parse fi
      then (case py_items_from1 env (sexpr cur) of
              Inl e \<Rightarrow> (Inl e, cur, lg)
            | Inr items \<Rightarrow>
                (case parse_list_unknown dec env fi items 1 [] cur lg of
                   (r, cur', lg') \<Rightarrow> (map_sum id PList r, cur', lg')))
      else (Inr (PList []), cur, lg))"

text \<open>\<open>_parse_sexpr_base_field\<close>.\<close>

definition parse_sexpr_base_field ::
  "'f decoder \<Rightarrow> 'f pyenv \<Rightarrow> FieldInfo \<Rightarrow> 'f ParseCursor \<Rightarrow> msg list \<Rightarrow> ('f, 'f pyval) step" where
  "parse_sexpr_base_field dec env fi cur lg =
     (if has_token fi
      then (case find_token env (the_token fi) cur of
              (Inl e, cur1) \<Rightarrow> (Inl e, cur1, lg)
            | (Inr named_sexpr, cur1) \<Rightarrow>
                if named_sexpr \<noteq> []
                then (let nested_cursor = enter cur1 (PList named_sexpr) (name fi)
                      in case dec (inner_type fi) (PList named_sexpr) nested_cursor lg of
                           (r, lg1) \<Rightarrow> (r, cur1, lg1))
                else issue_if_then_none (\<not> is_optional fi) cur1
                       (RequiredTokenNotFound (path cur1) (the_token fi)) lg)
      else
        let index = position_index fi + 1
        in case py_len env (sexpr cur) of
             Inl e \<Rightarrow> (Inl e, cur, lg)
           | Inr n \<Rightarrow>
               if index \<ge> n
               then issue_if_then_none (\<not> is_optional fi) cur
                      (RequiredFieldNotFound (path cur) (name fi) index) lg
               else
                 let cur1 = mark_used index cur
                 in case (case py_getitem env (sexpr cur1) index of
                            Inl e \<Rightarrow> (Inl e, lg)
                          | Inr item \<Rightarrow> dec (inner_type fi) item (enter cur1 item (name fi)) lg) of
                      (Inr v, lg1) \<Rightarrow> (Inr v, cur1, lg1)
                    | (Inl e, lg1) \<Rightarrow>
                        if is_value_or_type_error e
                        then issue_if_then_none (\<not> is_optional fi) cur1
                               (FailedToParse (path cur1) (name fi) e) lg1
                        else (Inl e, cur1, lg1))"

text \<open>\<open>_parse_field\<close>. \<open>FieldType\<close> has two members, so the final \<open>else\<close> is never taken.\<close>

definition parse_field ::
  "'f decoder \<Rightarrow> 'f pyenv \<Rightarrow> FieldInfo \<Rightarrow> 'f ParseCursor \<Rightarrow> msg list \<Rightarrow> ('f, 'f pyval) step" where
  "parse_field dec env fi cur lg =
     (if is_list fi then parse_list_field dec env fi cur lg
      else case field_type fi of
             PRIMITIVE \<Rightarrow> parse_primitive_field env fi cur lg
           | SEXPR_BASE \<Rightarrow> parse_sexpr_base_field dec env fi cur lg)"

text \<open>The loop of \<open>from_sexpr\<close> over the field infos, filling \<open>parsed_values\<close>.\<close>

fun parse_fields ::
  "'f decoder \<Rightarrow> 'f pyenv \<Rightarrow> FieldInfo list \<Rightarrow> (string \<rightharpoonup> 'f pyval) \<Rightarrow>
   'f ParseCursor \<Rightarrow> msg list \<Rightarrow> ('f, string \<rightharpoonup> 'f pyval) step" where
  "parse_fields dec env [] parsed_values cur lg = (Inr parsed_values, cur, lg)"
| "parse_fields dec env (fi # rest) parsed_values cur lg =
     (case parse_field dec env fi cur lg of
        (Inl e, cur', lg') \<Rightarrow> (Inl e, cur', lg')
      | (Inr v, cur', lg') \<Rightarrow>
          parse_fields dec env rest
            (if v \<noteq> PNone then parsed_values(name fi \<mapsto> v) else parsed_values) cur' lg')"

text \<open>
  \<open>cls(**parsed_values)\<close>: every dataclass field takes its parsed value or its default;
  a field with neither is a \<open>TypeError\<close>. Then \<open>KiCadObject.__post_init__\<close>.
\<close>

fun init_fields :: "'f dataclass_field list \<Rightarrow> (string \<rightharpoonup> 'f pyval) \<Rightarrow> py_exc + (string \<times> 'f pyval) list" where
  "init_fields [] parsed_values = Inr []"
| "init_fields (f # fs) parsed_values =
     (case (case parsed_values (df_name f) of
              Some v \<Rightarrow> Inr v
            | None \<Rightarrow> (case df_default f of
                         NoDefault \<Rightarrow> Inl TypeError
                       | Default d \<Rightarrow> Inr d
                       | DefaultFactory d \<Rightarrow> Inr d)) of
        Inl e \<Rightarrow> Inl e
      | Inr v \<Rightarrow> (case init_fields fs parsed_values of
                    Inl e \<Rightarrow> Inl e
                  | Inr vs \<Rightarrow> Inr ((df_name f, v) # vs)))"

definition construct :: "'f pyenv \<Rightarrow> string \<Rightarrow> (string \<rightharpoonup> 'f pyval) \<Rightarrow> py_exc + 'f pyval" where
  "construct env c parsed_values =
     (case init_fields (class_fields (classes env c)) parsed_values of
        Inl e \<Rightarrow> Inl e
      | Inr vs \<Rightarrow>
          if class_token_name (classes env c) = []
          then Inl (ValueError (MustDefineTokenName c))
          else Inr (KiCadObject c vs))"

text \<open>\<open>from_sexpr\<close> of the wrapper classes, by element type.\<close>

definition wrapper_from_sexpr ::
  "'f pyenv \<Rightarrow> decl_type \<Rightarrow> 'f sexpr \<Rightarrow> 'f ParseCursor option \<Rightarrow> py_exc + 'f pyval" where
  "wrapper_from_sexpr env t sx cursor =
     (case t of
        TKiCadPrimitive c \<Rightarrow> KiCadPrimitive_from_sexpr env c sx cursor
      | TOptionalFlag \<Rightarrow> OptionalFlag_from_sexpr env sx cursor
      | TOptionalSimpleFlag \<Rightarrow> OptionalSimpleFlag_from_sexpr env sx cursor
      | _ \<Rightarrow> Inl AttributeError)"

text \<open>The terms a nested decode of a cursor on \<open>x\<close> can be given, and a size that they decrease.\<close>

definition nested_terms :: "'f pyenv \<Rightarrow> 'f pyval \<Rightarrow> 'f pyval set" where
  "nested_terms env x =
     (case py_seq env x of
        None \<Rightarrow> {}
      | Some xs \<Rightarrow> set (drop 1 xs) \<union> (\<lambda>y. PList [y]) ` {y \<in> set (drop 1 xs). is_str_or_symbol y})"

fun term_size :: "'f pyval \<Rightarrow> nat" where
  "term_size (PList xs) = Suc (sum_list (map term_size xs))"
| "term_size (PStr s) = Suc (2 * length s)"
| "term_size (PSymbol s) = Suc (2 * length s)"
| "term_size x = 1"

subsection \<open>Termination of the recursive decode\<close>

text \<open>
  A parse step never replaces the term of its cursor, and it hands a nested decode only
  terms of \<open>nested_terms\<close>, which are smaller than the cursor's term.
\<close>

lemma sexpr_mark_used [simp]: "sexpr (mark_used i cur) = sexpr cur"
  by (simp add: mark_used_def)

lemma sexpr_enter [simp]: "sexpr (enter cur sx nm) = sx"
  by (simp add: enter_def)

lemma sexpr_issue_then_none:
  "issue_then_none cur m lg = (r, cur', lg') \<Longrightarrow> sexpr cur' = sexpr cur"
  by (auto simp: issue_then_none_def split: prod.splits sum.splits)

lemma sexpr_issue_if_then_none:
  "issue_if_then_none b cur m lg = (r, cur', lg') \<Longrightarrow> sexpr cur' = sexpr cur"
  by (auto simp: issue_if_then_none_def dest: sexpr_issue_then_none split: if_splits)

lemma sexpr_get_value_at_index:
  "get_value_at_index env i fn tn rq cur lg = (r, cur', lg') \<Longrightarrow> sexpr cur' = sexpr cur"
  by (auto simp: get_value_at_index_def dest: sexpr_issue_if_then_none split: sum.splits if_splits)

lemma sexpr_parse_int:
  "parse_int env i fn rq cur lg = (r, cur', lg') \<Longrightarrow> sexpr cur' = sexpr cur"
  by (auto simp: parse_int_def dest!: sexpr_get_value_at_index sexpr_issue_then_none
      split: prod.splits sum.splits if_splits)

lemma sexpr_parse_float:
  "parse_float env i fn rq cur lg = (r, cur', lg') \<Longrightarrow> sexpr cur' = sexpr cur"
  by (auto simp: parse_float_def dest!: sexpr_get_value_at_index sexpr_issue_then_none
      split: prod.splits sum.splits if_splits)

lemma sexpr_parse_str:
  "parse_str env i fn rq cur lg = (r, cur', lg') \<Longrightarrow> sexpr cur' = sexpr cur"
  by (auto simp: parse_str_def dest!: sexpr_get_value_at_index
      split: prod.splits sum.splits if_splits)

lemma sexpr_parse_bool:
  "parse_bool env i fn rq cur lg = (r, cur', lg') \<Longrightarrow> sexpr cur' = sexpr cur"
  by (auto simp: parse_bool_def dest!: sexpr_get_value_at_index
      split: prod.splits sum.splits if_splits)

lemma sexpr_parse_enum:
  "parse_enum env i fn c ms rq cur lg = (r, cur', lg') \<Longrightarrow> sexpr cur' = sexpr cur"
  by (auto simp: parse_enum_def dest!: sexpr_get_value_at_index sexpr_issue_then_none
      split: prod.splits sum.splits if_splits)

lemma sexpr_find_token:
  "find_token env tn cur = (r, cur') \<Longrightarrow> sexpr cur' = sexpr cur"
  by (auto simp: find_token_def split: sum.splits option.splits)

lemma sexpr_parse_positional:
  "parse_positional env fi cur lg = (r, cur', lg') \<Longrightarrow> sexpr cur' = sexpr cur"
  by (auto simp: parse_positional_def Let_def
      dest: sexpr_parse_int sexpr_parse_float sexpr_parse_str sexpr_parse_bool sexpr_parse_enum
      split: decl_type.splits)

lemma sexpr_parse_primitive_field:
  "parse_primitive_field env fi cur lg = (r, cur', lg') \<Longrightarrow> sexpr cur' = sexpr cur"
  by (auto simp: parse_primitive_field_def
      dest!: sexpr_find_token sexpr_parse_positional
      split: prod.splits sum.splits if_splits)

lemma sexpr_parse_list_known:
  "parse_list_known dec env fi items idx result cur lg = (r, cur', lg') \<Longrightarrow> sexpr cur' = sexpr cur"
proof (induction items arbitrary: idx result cur lg)
  case Nil
  then show ?case by simp
next
  case (Cons item rest)
  then show ?case
    by (auto simp: Let_def split: if_splits prod.splits sum.splits dest!: Cons.IH)
qed

lemma sexpr_parse_list_unknown:
  "parse_list_unknown dec env fi items idx result cur lg = (r, cur', lg') \<Longrightarrow> sexpr cur' = sexpr cur"
proof (induction items arbitrary: idx result cur lg)
  case Nil
  then show ?case by simp
next
  case (Cons item rest)
  then show ?case
    by (auto simp: Let_def split: if_splits prod.splits sum.splits dest!: Cons.IH)
qed

lemma sexpr_parse_list_field:
  "parse_list_field dec env fi cur lg = (r, cur', lg') \<Longrightarrow> sexpr cur' = sexpr cur"
  by (auto simp: parse_list_field_def
      dest!: sexpr_parse_list_known sexpr_parse_list_unknown
      split: prod.splits sum.splits if_splits)

lemma sexpr_parse_sexpr_base_field:
  "parse_sexpr_base_field dec env fi cur lg = (r, cur', lg') \<Longrightarrow> sexpr cur' = sexpr cur"
  by (auto simp: parse_sexpr_base_field_def Let_def
      dest!: sexpr_find_token sexpr_issue_if_then_none
      split: prod.splits sum.splits if_splits)

lemma sexpr_parse_field:
  "parse_field dec env fi cur lg = (r, cur', lg') \<Longrightarrow> sexpr cur' = sexpr cur"
  by (auto simp: parse_field_def
      dest: sexpr_parse_list_field sexpr_parse_primitive_field sexpr_parse_sexpr_base_field
      split: if_splits FieldType.splits)


lemma parse_list_known_cong:
  assumes "\<And>t item ncur l. sexpr ncur \<in> set items \<Longrightarrow> dec t item ncur l = dec' t item ncur l"
  shows "parse_list_known dec env fi items idx result cur lg
       = parse_list_known dec' env fi items idx result cur lg"
  using assms
proof (induction items arbitrary: idx result cur lg)
  case Nil
  then show ?case by simp
next
  case (Cons item rest)
  have d: "\<And>t ncur l. sexpr ncur = item \<Longrightarrow> dec t item ncur l = dec' t item ncur l"
    using Cons.prems by simp
  have r: "\<And>idx result cur lg. parse_list_known dec env fi rest idx result cur lg
       = parse_list_known dec' env fi rest idx result cur lg"
    using Cons.IH Cons.prems by simp
  show ?case
    by (simp add: Let_def d r split: prod.splits sum.splits)
qed

lemma parse_list_unknown_cong:
  assumes "\<And>t item ncur l. sexpr ncur \<in> set items \<Longrightarrow> dec t item ncur l = dec' t item ncur l"
  shows "parse_list_unknown dec env fi items idx result cur lg
       = parse_list_unknown dec' env fi items idx result cur lg"
  using assms
proof (induction items arbitrary: idx result cur lg)
  case Nil
  then show ?case by simp
next
  case (Cons item rest)
  have d: "\<And>t ncur l. sexpr ncur = item \<Longrightarrow> dec t item ncur l = dec' t item ncur l"
    using Cons.prems by simp
  have r: "\<And>idx result cur lg. parse_list_unknown dec env fi rest idx result cur lg
       = parse_list_unknown dec' env fi rest idx result cur lg"
    using Cons.IH Cons.prems by simp
  show ?case
    by (simp add: Let_def d r split: prod.splits sum.splits)
qed

lemma nested_terms_items:
  "py_items_from1 env x = Inr items \<Longrightarrow> y \<in> set items \<Longrightarrow> y \<in> nested_terms env x"
  by (auto simp: py_items_from1_def nested_terms_def split: option.splits)

lemma nested_terms_singleton:
  "py_items_from1 env x = Inr items \<Longrightarrow> y \<in> set items \<Longrightarrow> is_str_or_symbol y
   \<Longrightarrow> PList [y] \<in> nested_terms env x"
  by (auto simp: py_items_from1_def nested_terms_def split: option.splits)

lemma nested_terms_getitem:
  "py_getitem env x i = Inr y \<Longrightarrow> 1 \<le> i \<Longrightarrow> y \<in> nested_terms env x"
  by (auto simp: py_getitem_def nested_terms_def in_set_conv_nth split: option.splits if_splits
      intro!: exI[of _ "i - 1"])

lemma find_token_scan_found:
  "find_token_scan env tn items idx = Some (i, found)
   \<Longrightarrow> PList found \<in> set items \<or> (\<exists>y \<in> set items. is_str_or_symbol y \<and> found = [y])"
  by (induction items arbitrary: idx) (auto split: if_splits pyval.splits list.splits)

lemma find_token_nested:
  "find_token env tn cur = (Inr found, cur') \<Longrightarrow> found \<noteq> []
   \<Longrightarrow> PList found \<in> nested_terms env (sexpr cur)"
  by (auto simp: find_token_def split: sum.splits option.splits
      dest!: find_token_scan_found dest: nested_terms_items nested_terms_singleton)

lemma parse_list_field_cong:
  assumes "\<And>t item ncur l. sexpr ncur \<in> nested_terms env (sexpr cur) \<Longrightarrow> dec t item ncur l = dec' t item ncur l"
  shows "parse_list_field dec env fi cur lg = parse_list_field dec' env fi cur lg"
proof -
  have k: "parse_list_known dec env fi items idx result cur lg
         = parse_list_known dec' env fi items idx result cur lg"
    if "py_items_from1 env (sexpr cur) = Inr items" for items idx result
    by (rule parse_list_known_cong) (use that assms nested_terms_items in blast)
  have u: "parse_list_unknown dec env fi items idx result cur lg
         = parse_list_unknown dec' env fi items idx result cur lg"
    if "py_items_from1 env (sexpr cur) = Inr items" for items idx result
    by (rule parse_list_unknown_cong) (use that assms nested_terms_items in blast)
  show ?thesis
    by (simp add: parse_list_field_def k u split: sum.splits)
qed

lemma parse_sexpr_base_field_cong:
  assumes "\<And>t item ncur l. sexpr ncur \<in> nested_terms env (sexpr cur) \<Longrightarrow> dec t item ncur l = dec' t item ncur l"
  shows "parse_sexpr_base_field dec env fi cur lg = parse_sexpr_base_field dec' env fi cur lg"
proof (cases "has_token fi")
  case True
  have "dec (inner_type fi) (PList found) (enter cur1 (PList found) (name fi)) lg
      = dec' (inner_type fi) (PList found) (enter cur1 (PList found) (name fi)) lg"
    if "find_token env (the_token fi) cur = (Inr found, cur1)" "found \<noteq> []" for found cur1
    using assms find_token_nested[OF that] by simp
  then show ?thesis
    using True by (simp add: parse_sexpr_base_field_def Let_def split: prod.splits sum.splits)
next
  case False
  have "dec (inner_type fi) item (enter cur1 item (name fi)) lg
      = dec' (inner_type fi) item (enter cur1 item (name fi)) lg"
    if "py_getitem env (sexpr cur) (position_index fi + 1) = Inr item" for item cur1
    using assms nested_terms_getitem[OF that] by simp
  then show ?thesis
    using False by (simp add: parse_sexpr_base_field_def Let_def split: prod.splits sum.splits)
qed

lemma parse_field_cong:
  assumes "\<And>t item ncur l. sexpr ncur \<in> nested_terms env (sexpr cur) \<Longrightarrow> dec t item ncur l = dec' t item ncur l"
  shows "parse_field dec env fi cur lg = parse_field dec' env fi cur lg"
  using parse_list_field_cong[OF assms] parse_sexpr_base_field_cong[OF assms]
  by (simp add: parse_field_def split: FieldType.splits)

lemma parse_fields_cong [fundef_cong]:
  assumes "env = env'" "fis = fis'" "pv = pv'" "cur = cur'" "lg = lg'"
    and "\<And>t item ncur l. sexpr ncur \<in> nested_terms env' (sexpr cur') \<Longrightarrow> dec t item ncur l = dec' t item ncur l"
  shows "parse_fields dec env fis pv cur lg = parse_fields dec' env' fis' pv' cur' lg'"
proof -
  have "parse_fields dec env' fis' pv' cur' lg' = parse_fields dec' env' fis' pv' cur' lg'"
    using assms(6)
  proof (induction fis' arbitrary: pv' cur' lg')
    case Nil
    then show ?case by simp
  next
    case (Cons fi rest)
    have f: "parse_field dec env' fi cur' lg' = parse_field dec' env' fi cur' lg'"
      by (rule parse_field_cong) (use Cons.prems in blast)
    have "parse_fields dec env' rest pv2 cur2 lg2 = parse_fields dec' env' rest pv2 cur2 lg2"
      if "parse_field dec' env' fi cur' lg' = (r, cur2, lg2)" for r pv2 cur2 lg2
      using Cons.IH[of cur2] Cons.prems sexpr_parse_field[OF that] by simp
    then show ?case
      by (simp add: f split: prod.splits sum.splits)
  qed
  then show ?thesis using assms by simp
qed

lemma sum_list_term_size_mem: "y \<in> set xs \<Longrightarrow> term_size y \<le> sum_list (map term_size xs)"
  by (induction xs) auto

lemma term_size_pos: "0 < term_size x"
  by (cases x) auto

lemma term_size_drop1:
  assumes "y \<in> set (drop 1 xs)"
  shows "Suc (term_size y) \<le> sum_list (map term_size xs)"
proof (cases xs)
  case Nil
  then show ?thesis using assms by simp
next
  case (Cons h t)
  then have "term_size y \<le> sum_list (map term_size t)"
    using assms sum_list_term_size_mem by fastforce
  then show ?thesis using Cons term_size_pos[of h] by simp
qed

lemma chars_drop1:
  assumes "z \<in> set (drop 1 (map (\<lambda>c. PStr [c]) s))"
  shows "term_size z = 3 \<and> 2 \<le> length s"
proof (cases s)
  case Nil
  then show ?thesis using assms by simp
next
  case (Cons a t)
  then show ?thesis using assms by (cases t) auto
qed

lemma nested_terms_smaller:
  assumes "y \<in> nested_terms env x"
  shows "term_size y < term_size x"
proof (cases "py_seq env x")
  case None
  then show ?thesis using assms by (simp add: nested_terms_def)
next
  case (Some xs)
  then obtain z where z: "z \<in> set (drop 1 xs)" "y = z \<or> y = PList [z]"
    using assms by (auto simp: nested_terms_def)
  have "Suc (term_size z) < term_size x"
  proof (cases x)
    case (PList zs)
    then show ?thesis using Some z(1) term_size_drop1[of z xs] by simp
  next
    case (PStr s)
    then show ?thesis using Some z(1) chars_drop1[of z s] by simp
  next
    case (PSymbol s)
    then show ?thesis using Some z(1) chars_drop1[of z s] by (simp split: if_splits)
  qed (use Some in auto)
  then show ?thesis using z(2) by auto
qed

text \<open>
  \<open>KiCadObject.from_sexpr\<close> with a cursor: the class \<open>c\<close> is decoded from the term of
  the cursor (the \<open>sexpr\<close> argument is not read when a cursor is given).
\<close>

function from_sexpr_cursor ::
  "'f pyenv \<Rightarrow> string \<Rightarrow> 'f ParseCursor \<Rightarrow> msg list \<Rightarrow> (py_exc + 'f pyval) \<times> msg list" where
  "from_sexpr_cursor env c cur lg =
     (case (if py_truthy env (sexpr cur)
            then map_sum id (py_str env) (py_getitem env (sexpr cur) 0)
            else Inr ''empty'') of
        Inl e \<Rightarrow> (Inl e, lg)
      | Inr token \<Rightarrow>
          if token \<notin> set (class_token_name (classes env c) # legacy_token_names (classes env c))
          then (Inl (ValueError (TokenMismatch (path cur) (class_token_name (classes env c)) token)), lg)
          else
            (case parse_fields
                    (\<lambda>t item nested_cursor l.
                       case t of
                         TKiCadObject c' \<Rightarrow> from_sexpr_cursor env c' nested_cursor l
                       | _ \<Rightarrow> (wrapper_from_sexpr env t item (Some nested_cursor), l))
                    env (classify_fields env c) Map.empty cur lg of
               (Inl e, cur', lg') \<Rightarrow> (Inl e, lg')
             | (Inr parsed_values, cur', lg') \<Rightarrow> (construct env c parsed_values, lg')))"
  by pat_completeness auto
termination
  by (relation "measure (\<lambda>(env, c, cur, lg). term_size (sexpr cur))")
     (auto dest: nested_terms_smaller)

text \<open>
  \<open>KiCadObject.from_sexpr\<close> without a cursor: a string is tokenized first, and the root
  cursor has an empty tracker and the class name as its path.
\<close>

definition from_sexpr ::
  "'f pyenv \<Rightarrow> string \<Rightarrow> 'f sexpr \<Rightarrow> ParseStrictness \<Rightarrow> msg list \<Rightarrow> (py_exc + 'f pyval) \<times> msg list" where
  "from_sexpr env c sx strict lg =
     (case (if is_str env sx then str_to_sexpr env (py_str env sx) else Inr sx) of
        Inl e \<Rightarrow> (Inl e, lg)
      | Inr sx' \<Rightarrow>
          from_sexpr_cursor env c \<lparr>sexpr = sx', parser = {}, path = [c], strictness = strict\<rparr> lg)"

section \<open>Binding engine: encode\<close>

text \<open>\<open>isinstance(v, SExpressionBase)\<close>.\<close>

fun is_sexpression_base_instance :: "'f pyval \<Rightarrow> bool" where
  "is_sexpression_base_instance (KiCadPrimitive c t v r) = True"
| "is_sexpression_base_instance (OptionalFlag t tv r) = True"
| "is_sexpression_base_instance (OptionalSimpleFlag t r) = True"
| "is_sexpression_base_instance (KiCadObject c fs) = True"
| "is_sexpression_base_instance v = False"

text \<open>
  \<open>KiCadObject.to_sexpr\<close>, with the \<open>to_sexpr\<close> of the wrappers. \<open>to_sexpr_fields\<close> is
  the loop over the field infos and \<open>to_sexpr_items\<close> the loop over the items of a list
  value; both append to \<open>result\<close>. \<open>getattr\<close> of a field the instance does not have is an
  \<open>AttributeError\<close>, and so is \<open>to_sexpr\<close> of a value that has no such method.
\<close>

lemma map_of_size:
  "map_of fs n = Some v \<Longrightarrow> size v < size (KiCadObject c fs)"
  by (induction fs) (auto split: if_splits)

function to_sexpr :: "'f pyenv \<Rightarrow> 'f pyval \<Rightarrow> py_exc + 'f sexpr"
  and to_sexpr_fields ::
    "'f pyenv \<Rightarrow> string \<Rightarrow> (string \<times> 'f pyval) list \<Rightarrow> FieldInfo list \<Rightarrow> 'f pyval list \<Rightarrow> py_exc + 'f pyval list"
  and to_sexpr_items :: "'f pyenv \<Rightarrow> 'f pyval list \<Rightarrow> 'f pyval list \<Rightarrow> py_exc + 'f pyval list"
where
  "to_sexpr env (KiCadPrimitive c t v r) = Inr (KiCadPrimitive_to_sexpr t v)"
| "to_sexpr env (OptionalFlag t tv r) = Inr (OptionalFlag_to_sexpr t tv)"
| "to_sexpr env (OptionalSimpleFlag t r) = Inr (OptionalSimpleFlag_to_sexpr t)"
| "to_sexpr env (KiCadObject c fs) =
     map_sum id PList
       (to_sexpr_fields env c fs (classify_fields env c) [PStr (class_token_name (classes env c))])"
| "to_sexpr env PNone = Inl AttributeError"
| "to_sexpr env (PBool b) = Inl AttributeError"
| "to_sexpr env (PInt n) = Inl AttributeError"
| "to_sexpr env (PFloat x) = Inl AttributeError"
| "to_sexpr env (PStr s) = Inl AttributeError"
| "to_sexpr env (PSymbol s) = Inl AttributeError"
| "to_sexpr env (PEnum ec n ev) = Inl AttributeError"
| "to_sexpr env (PList xs) = Inl AttributeError"
| "to_sexpr_fields env c fs [] result = Inr result"
| "to_sexpr_fields env c fs (fi # rest) result =
     (case map_of fs (name fi) of
        None \<Rightarrow> Inl AttributeError
      | Some v \<Rightarrow>
          if v = PNone then to_sexpr_fields env c fs rest result
          else if is_sexpression_base_instance v
          then (case to_sexpr env v of
                  Inl e \<Rightarrow> Inl e
                | Inr t \<Rightarrow> to_sexpr_fields env c fs rest (result @ [t]))
          else (case v of
                  PList items \<Rightarrow>
                    (case to_sexpr_items env items result of
                       Inl e \<Rightarrow> Inl e
                     | Inr result' \<Rightarrow> to_sexpr_fields env c fs rest result')
                | PEnum ec n ev \<Rightarrow> to_sexpr_fields env c fs rest (result @ [PStr ev])
                | _ \<Rightarrow> to_sexpr_fields env c fs rest (result @ [v])))"
| "to_sexpr_items env [] result = Inr result"
| "to_sexpr_items env (item # rest) result =
     (if is_sexpression_base_instance item
      then (case to_sexpr env item of
              Inl e \<Rightarrow> Inl e
            | Inr t \<Rightarrow> to_sexpr_items env rest (result @ [t]))
      else to_sexpr_items env rest (result @ [item]))"
  by pat_completeness auto
termination
  apply (relation "measures
      [\<lambda>x. case x of
              Inl (env, v) \<Rightarrow> 2 * size v
            | Inr (Inl (env, c, fs, fis, res)) \<Rightarrow> 2 * size (KiCadObject c fs) - 1
            | Inr (Inr (env, items, res)) \<Rightarrow> 2 * size_list size items + 1,
       \<lambda>x. case x of
              Inl (env, v) \<Rightarrow> 0
            | Inr (Inl (env, c, fs, fis, res)) \<Rightarrow> length fis
            | Inr (Inr (env, items, res)) \<Rightarrow> length items]")
        apply (auto dest: map_of_size)
  done

section \<open>Classes of the repository used in the examples\<close>

text \<open>
  \<open>Net\<close> and \<open>Chamfer\<close> of \<open>pad_and_drill.py\<close>:
  \<^verbatim>\<open>number: int = field(default=0)\<close>, \<^verbatim>\<open>name: str = field(default="")\<close>, and
  \<^verbatim>\<open>corners: List[str] = field(default_factory=list)\<close>.
\<close>

definition Net_class :: "'f class_decl" where
  "Net_class =
     \<lparr>class_token_name = ''net'', legacy_token_names = [],
      class_fields =
        [\<lparr>df_name = ''number'', df_type = TInt, df_default = Default (PInt 0), meta_required = None\<rparr>,
         \<lparr>df_name = ''name'', df_type = TStr, df_default = Default (PStr ''''), meta_required = None\<rparr>]\<rparr>"

definition Chamfer_class :: "'f class_decl" where
  "Chamfer_class =
     \<lparr>class_token_name = ''chamfer'', legacy_token_names = [],
      class_fields =
        [\<lparr>df_name = ''corners'', df_type = TList TStr, df_default = DefaultFactory (PList []),
          meta_required = None\<rparr>]\<rparr>"

text \<open>The base class \<open>KiCadObject\<close> itself: no token, no fields.\<close>

definition KiCadObject_class :: "'f class_decl" where
  "KiCadObject_class = \<lparr>class_token_name = '''', legacy_token_names = [], class_fields = []\<rparr>"

text \<open>
  Classes written for the examples, with the constructors of \<open>base_element.py\<close>:
  \<^verbatim>\<open>class Marker(KiCadObject):
    __token_name__ = "marker"
    label: str = field(default="")
    hide: Optional[OptionalFlag] = field(default_factory=lambda: OptionalFlag("hide"))
class Group(KiCadObject):
    __token_name__ = "group"
    items: List[KiCadInt] = field(default_factory=list)
class Shapes(KiCadObject):
    __token_name__ = "shapes"
    items: List[KiCadObject] = field(default_factory=list)
class Nets2(KiCadObject):
    __token_name__ = "nets2"
    first: Net = field(default_factory=lambda: Net())
    nets: List[Net] = field(default_factory=list)\<close>
\<close>

definition Marker_class :: "'f class_decl" where
  "Marker_class =
     \<lparr>class_token_name = ''marker'', legacy_token_names = [],
      class_fields =
        [\<lparr>df_name = ''label'', df_type = TStr, df_default = Default (PStr ''''), meta_required = None\<rparr>,
         \<lparr>df_name = ''hide'', df_type = TOptional TOptionalFlag,
          df_default = DefaultFactory (OptionalFlag ''hide'' None False), meta_required = None\<rparr>]\<rparr>"

definition Group_class :: "'f class_decl" where
  "Group_class =
     \<lparr>class_token_name = ''group'', legacy_token_names = [],
      class_fields =
        [\<lparr>df_name = ''items'', df_type = TList (TKiCadPrimitive KiCadInt),
          df_default = DefaultFactory (PList []), meta_required = None\<rparr>]\<rparr>"

definition Shapes_class :: "'f class_decl" where
  "Shapes_class =
     \<lparr>class_token_name = ''shapes'', legacy_token_names = [],
      class_fields =
        [\<lparr>df_name = ''items'', df_type = TList (TKiCadObject ''KiCadObject''),
          df_default = DefaultFactory (PList []), meta_required = None\<rparr>]\<rparr>"

definition Nets2_class :: "'f class_decl" where
  "Nets2_class =
     \<lparr>class_token_name = ''nets2'', legacy_token_names = [],
      class_fields =
        [\<lparr>df_name = ''first'', df_type = TKiCadObject ''Net'',
          df_default = DefaultFactory (KiCadObject ''Net'' [(''number'', PInt 0), (''name'', PStr '''')]),
          meta_required = None\<rparr>,
         \<lparr>df_name = ''nets'', df_type = TList (TKiCadObject ''Net''),
          df_default = DefaultFactory (PList []), meta_required = None\<rparr>]\<rparr>"

definition example_classes :: "string \<Rightarrow> 'f class_decl" where
  "example_classes c =
     (if c = ''Net'' then Net_class
      else if c = ''Chamfer'' then Chamfer_class
      else if c = ''Marker'' then Marker_class
      else if c = ''Group'' then Group_class
      else if c = ''Shapes'' then Shapes_class
      else if c = ''Nets2'' then Nets2_class
      else KiCadObject_class)"

text \<open>
  An environment for the examples. Its floats are the integers, standing for the floats
  of integral value; \<open>int(s)\<close> reads an optional sign and ASCII digits, and \<open>float(s)\<close>
  the same followed by an optional point and zeros. The examples pass terms, not text,
  and no term of theirs has a list as its head, so the tokenizer and \<open>str\<close> of a list
  or instance are never called in them: they are stand-ins.
\<close>

definition digit_value :: "char \<Rightarrow> nat option" where
  "digit_value ch = map_of (zip ''0123456789'' [0, 1, 2, 3, 4, 5, 6, 7, 8, 9]) ch"

fun digits_value :: "string \<Rightarrow> nat \<Rightarrow> nat option" where
  "digits_value [] acc = Some acc"
| "digits_value (ch # s) acc =
     (case digit_value ch of None \<Rightarrow> None | Some d \<Rightarrow> digits_value s (10 * acc + d))"

definition example_int_of_str :: "string \<Rightarrow> py_exc + int" where
  "example_int_of_str s =
     (let (negative, ds) =
            (case s of
               ch # t \<Rightarrow> if ch = CHR ''-'' then (True, t) else if ch = CHR ''+'' then (False, t) else (False, s)
             | [] \<Rightarrow> (False, s))
      in if ds = [] then Inl BuiltinValueError
         else case digits_value ds 0 of
                None \<Rightarrow> Inl BuiltinValueError
              | Some n \<Rightarrow> Inr (if negative then - int n else int n))"

definition example_float_of_str :: "string \<Rightarrow> py_exc + int" where
  "example_float_of_str s =
     (let whole = takeWhile (\<lambda>ch. ch \<noteq> CHR ''.'') s;
          frac = drop 1 (dropWhile (\<lambda>ch. ch \<noteq> CHR ''.'') s)
      in if list_all (\<lambda>ch. ch = CHR ''0'') frac then example_int_of_str whole
         else Inl BuiltinValueError)"

definition example_env :: "int pyenv" where
  "example_env =
     \<lparr>classes = example_classes,
      optional_flag_token_name = '''',
      optional_simple_flag_token_name = '''',
      int_of_str = example_int_of_str,
      float_of_str = example_float_of_str,
      float_of_int = Inr,
      int_of_float = Inr,
      str_of_float = (\<lambda>x. str_of_int x @ ''.0''),
      float_nonzero = (\<lambda>x. x \<noteq> 0),
      float_eq = (=),
      int_float_eq = (=),
      str_of_other = (\<lambda>v. ''<object>''),
      str_to_sexpr = (\<lambda>s. Inl BuiltinValueError),
      symbol_is_str = True\<rparr>"

section \<open>Scalar anomalies, in the words of the specification\<close>

text \<open>
  The type name each \<open>parse_*\<close> function passes on, what it means for the conversion of
  an atom to a scalar type to fail (the exceptions the \<open>except\<close> clauses of
  \<open>parse_int\<close>, \<open>parse_float\<close> and \<open>parse_enum\<close> catch; \<open>parse_str\<close> and \<open>parse_bool\<close>
  convert every atom), and the issue reported then.
\<close>

fun type_label :: "decl_type \<Rightarrow> string" where
  "type_label (TEnum c members) = ''enum''"
| "type_label TInt = ''int''"
| "type_label TFloat = ''float''"
| "type_label TBool = ''bool''"
| "type_label t = ''str''"

fun conversion_fails :: "'f pyenv \<Rightarrow> decl_type \<Rightarrow> 'f pyval \<Rightarrow> bool" where
  "conversion_fails env TInt v =
     (case py_int env v of Inl e \<Rightarrow> is_value_or_type_error e | Inr n \<Rightarrow> False)"
| "conversion_fails env TFloat v =
     (case py_float env v of Inl e \<Rightarrow> is_value_or_type_error e | Inr x \<Rightarrow> False)"
| "conversion_fails env (TEnum c members) v =
     (case enum_by_value c members (py_str env v) :: py_exc + 'f pyval of
        Inr m \<Rightarrow> False
      | Inl e \<Rightarrow> (enum_by_name c members (upper (py_str env v)) :: py_exc + 'f pyval) = Inl KeyError)"
| "conversion_fails env t v = False"

fun conversion_issue :: "string list \<Rightarrow> decl_type \<Rightarrow> string \<Rightarrow> string \<Rightarrow> msg" where
  "conversion_issue p (TEnum c members) text field_name = InvalidEnum p text field_name"
| "conversion_issue p t text field_name = CannotConvert p text (type_label t) field_name"

section \<open>The decode of one class, step by step\<close>

text \<open>
  Names for the parts of \<open>from_sexpr\<close>: the token it reads from the head of the term,
  whether that token passes the check, the nested decode it hands to the field loop,
  and the default a dataclass field declares.
\<close>

definition head_token :: "'f pyenv \<Rightarrow> 'f sexpr \<Rightarrow> py_exc + string" where
  "head_token env sx =
     (if py_truthy env sx then map_sum id (py_str env) (py_getitem env sx 0) else Inr ''empty'')"

definition token_accepted :: "'f pyenv \<Rightarrow> string \<Rightarrow> 'f ParseCursor \<Rightarrow> bool" where
  "token_accepted env c cur =
     (case head_token env (sexpr cur) of
        Inl e \<Rightarrow> False
      | Inr token \<Rightarrow>
          token \<in> set (class_token_name (classes env c) # legacy_token_names (classes env c)))"

definition nested_from_sexpr :: "'f pyenv \<Rightarrow> 'f decoder" where
  "nested_from_sexpr env =
     (\<lambda>t item nested_cursor l.
        case t of
          TKiCadObject c' \<Rightarrow> from_sexpr_cursor env c' nested_cursor l
        | _ \<Rightarrow> (wrapper_from_sexpr env t item (Some nested_cursor), l))"

definition declared_default :: "'f dataclass_field \<Rightarrow> 'f pyval option" where
  "declared_default f =
     (case df_default f of NoDefault \<Rightarrow> None | Default d \<Rightarrow> Some d | DefaultFactory d \<Rightarrow> Some d)"

text \<open>
  \<open>DieLength\<close> of \<open>pad_and_drill.py\<close>: \<^verbatim>\<open>length: float = field(default=0.0)\<close>. The
  environment of the examples with this class, and with Python's bound on \<open>float(n)\<close>:
  an integer of magnitude \<open>2 ^ 1024\<close> or more raises \<open>OverflowError\<close>.
\<close>

definition DieLength_class :: "int class_decl" where
  "DieLength_class =
     \<lparr>class_token_name = ''die_length'', legacy_token_names = [],
      class_fields =
        [\<lparr>df_name = ''length'', df_type = TFloat, df_default = Default (PFloat 0), meta_required = None\<rparr>]\<rparr>"

definition bounded_float_env :: "int pyenv" where
  "bounded_float_env =
     example_env
       \<lparr>classes := (\<lambda>c. if c = ''DieLength'' then DieLength_class else example_classes c),
        float_of_int := (\<lambda>n. if 2 ^ 1024 \<le> \<bar>n\<bar> then Inl OverflowError else Inr n)\<rparr>"

text \<open>
  A class written for the examples, a list of \<open>DieLength\<close>:
  \<^verbatim>\<open>class Lengths(KiCadObject):
    __token_name__ = "lengths"
    items: List[DieLength] = field(default_factory=list)\<close>
  in the environment with Python's bound on \<open>float(n)\<close>.
\<close>

definition Lengths_class :: "int class_decl" where
  "Lengths_class =
     \<lparr>class_token_name = ''lengths'', legacy_token_names = [],
      class_fields =
        [\<lparr>df_name = ''items'', df_type = TList (TKiCadObject ''DieLength''),
          df_default = DefaultFactory (PList []), meta_required = None\<rparr>]\<rparr>"

definition lengths_env :: "int pyenv" where
  "lengths_env =
     bounded_float_env
       \<lparr>classes := (\<lambda>c. if c = ''Lengths'' then Lengths_class else classes bounded_float_env c)\<rparr>"

section \<open>Verified properties\<close>

subsection \<open>Equality of primitive wrappers\<close>

text \<open>
  C9. Two primitive-wrapper instances compare equal exactly when they have the same
  concrete class, equal tokens and equal values (\<open>==\<close> on the values). The \<open>required\<close>
  flags \<open>r\<close> and \<open>r'\<close> of the two instances do not occur on the right-hand side: they
  never take part in the comparison.
\<close>

theorem KiCadPrimitive_eq_iff:
  "KiCadPrimitive_eq env c t v r (KiCadPrimitive c' t' v' r') = (c = c' \<and> t = t' \<and> py_eq env v v')"
  by (simp add: KiCadPrimitive_eq_def)

subsection \<open>Pretty-printer layout\<close>

text \<open>Joining a non-empty list of strings starts with the first one.\<close>

lemma join_Cons: "join sep (x # ys) = x @ (if ys = [] then [] else sep @ join sep ys)"
  by (cases ys) simp_all

text \<open>A non-empty list prints its indentation, an opening parenthesis and its head first.\<close>

lemma format_nonempty_list_prefix:
  "\<exists>tail. format_sexpr_kicad_style env (PList (h # rest)) n
            = replicate n (CHR 0x09) @ ''('' @ py_str env h @ tail"
  by (simp add: Let_def join_Cons)

text \<open>
  C7, as the code has it. A one-element list prints on one line as \<open>(head)\<close> behind its
  indentation. A list whose children are all non-lists, at most three of them, prints
  on one line: the head and the formatted children separated by single spaces. Every
  other list prints the head and its non-list children on the first line, then each
  nested-list child by the recursive call one level deeper, each on a line of its own,
  and a last line holding the indentation and \<open>)\<close>. The indentation is one tab per
  level: the print of a nested-list child that is not the empty list starts with one
  tab more than its parent's, followed by its opening parenthesis.
\<close>

theorem format_sexpr_layout:
  "format_sexpr_kicad_style env (PList [h]) n = replicate n (CHR 0x09) @ ''('' @ py_str env h @ '')'' \<and>
   (rest \<noteq> [] \<and> filter is_pylist rest = [] \<and> length rest \<le> 3 \<longrightarrow>
      format_sexpr_kicad_style env (PList (h # rest)) n =
        replicate n (CHR 0x09) @ ''('' @
          join '' '' (py_str env h # format_children env (py_str env h) rest) @ '')'') \<and>
   (rest \<noteq> [] \<and> \<not> (filter is_pylist rest = [] \<and> length rest \<le> 3) \<longrightarrow>
      format_sexpr_kicad_style env (PList (h # rest)) n =
        join [CHR 0x0A]
          ([replicate n (CHR 0x09) @ ''('' @ py_str env h @
              (if format_children env (py_str env h) rest \<noteq> []
               then '' '' @ join '' '' (format_children env (py_str env h) rest) else '''')]
           @ map (\<lambda>child. format_sexpr_kicad_style env child (n + 1)) (filter is_pylist rest)
           @ [replicate n (CHR 0x09) @ '')''])) \<and>
   (\<forall>child \<in> set (filter is_pylist rest). child \<noteq> PList [] \<longrightarrow>
      (\<exists>tail. format_sexpr_kicad_style env child (n + 1) = replicate (n + 1) (CHR 0x09) @ ''('' @ tail))"
proof -
  have layout:
    "format_sexpr_kicad_style env (PList [h]) n = replicate n (CHR 0x09) @ ''('' @ py_str env h @ '')'' \<and>
     (rest \<noteq> [] \<and> filter is_pylist rest = [] \<and> length rest \<le> 3 \<longrightarrow>
        format_sexpr_kicad_style env (PList (h # rest)) n =
          replicate n (CHR 0x09) @ ''('' @
            join '' '' (py_str env h # format_children env (py_str env h) rest) @ '')'') \<and>
     (rest \<noteq> [] \<and> \<not> (filter is_pylist rest = [] \<and> length rest \<le> 3) \<longrightarrow>
        format_sexpr_kicad_style env (PList (h # rest)) n =
          join [CHR 0x0A]
            ([replicate n (CHR 0x09) @ ''('' @ py_str env h @
                (if format_children env (py_str env h) rest \<noteq> []
                 then '' '' @ join '' '' (format_children env (py_str env h) rest) else '''')]
             @ map (\<lambda>child. format_sexpr_kicad_style env child (n + 1)) (filter is_pylist rest)
             @ [replicate n (CHR 0x09) @ '')'']))"
    by (auto simp: Let_def)
  have indent: "\<exists>tail. format_sexpr_kicad_style env child (n + 1) = replicate (n + 1) (CHR 0x09) @ ''('' @ tail"
    if ch: "child \<in> set (filter is_pylist rest)" and ne: "child \<noteq> PList []" for child
  proof -
    have "is_pylist child" using ch by simp
    then obtain xs where xs: "child = PList xs" by (cases child) auto
    then obtain h' rest' where c: "child = PList (h' # rest')"
      using ne by (cases xs) auto
    obtain tail where "format_sexpr_kicad_style env (PList (h' # rest')) (n + 1)
        = replicate (n + 1) (CHR 0x09) @ ''('' @ py_str env h' @ tail"
      using format_nonempty_list_prefix[of env h' rest' "n + 1"] by blast
    then show ?thesis using c by blast
  qed
  show ?thesis using layout indent by blast
qed

text \<open>The three layouts at concrete terms.\<close>

theorem format_sexpr_layout_witness:
  "format_sexpr_kicad_style example_env (PList [PStr ''a'']) 2 = [CHR 0x09, CHR 0x09] @ ''(a)'' \<and>
   format_sexpr_kicad_style example_env (PList [PStr ''at'', PInt 1, PInt (-12), PBool True]) 1
     = [CHR 0x09] @ ''(at 1 -12 yes)'' \<and>
   format_sexpr_kicad_style example_env
       (PList [PStr ''a'', PInt 1, PList [PStr ''b'', PStr ''x''], PList [PStr ''c'']]) 1
     = [CHR 0x09] @ ''(a 1'' @ [CHR 0x0A, CHR 0x09, CHR 0x09] @ ''(b \"x\")''
       @ [CHR 0x0A, CHR 0x09, CHR 0x09] @ ''(c)'' @ [CHR 0x0A, CHR 0x09] @ '')''"
proof -
  have 1: "format_sexpr_kicad_style example_env (PList [PStr ''a'']) 2 = [CHR 0x09, CHR 0x09] @ ''(a)''"
    using format_sexpr_layout[of example_env "PStr ''a''" 2 "[]", THEN conjunct1] by (simp add: numeral_2_eq_2)
  have 2: "format_sexpr_kicad_style example_env (PList [PStr ''at'', PInt 1, PInt (-12), PBool True]) 1
     = [CHR 0x09] @ ''(at 1 -12 yes)''"
    using format_sexpr_layout[of example_env "PStr ''at''" 1 "[PInt 1, PInt (-12), PBool True]",
        THEN conjunct2, THEN conjunct1]
    by code_simp
  have 3: "format_sexpr_kicad_style example_env
       (PList [PStr ''a'', PInt 1, PList [PStr ''b'', PStr ''x''], PList [PStr ''c'']]) 1
     = [CHR 0x09] @ ''(a 1'' @ [CHR 0x0A, CHR 0x09, CHR 0x09] @ ''(b \"x\")''
       @ [CHR 0x0A, CHR 0x09, CHR 0x09] @ ''(c)'' @ [CHR 0x0A, CHR 0x09] @ '')''"
    using format_sexpr_layout[of example_env "PStr ''a''" 1 "[PInt 1, PList [PStr ''b'', PStr ''x''], PList [PStr ''c'']]",
        THEN conjunct2, THEN conjunct2, THEN conjunct1]
    by code_simp
  show ?thesis using 1 2 3 by blast
qed

text \<open>
  C7 as stated fails for an empty nested list: the source returns \<open>()\<close> for it before
  the indentation is computed, so the child of \<open>(a ())\<close> at level 1 is printed on its
  line with no tab at all.
\<close>

theorem empty_nested_list_not_indented:
  "format_sexpr_kicad_style example_env (PList [PStr ''a'', PList []]) 1
     = [CHR 0x09] @ ''(a'' @ [CHR 0x0A] @ ''()'' @ [CHR 0x0A, CHR 0x09] @ '')'' \<and>
   format_sexpr_kicad_style example_env (PList []) 2 = ''()'' \<and>
   \<not> starts_with [CHR 0x09, CHR 0x09] (format_sexpr_kicad_style example_env (PList []) 2)"
  by code_simp

subsection \<open>Quoting of atoms\<close>

text \<open>
  The atom rules of \<open>_format_primitive_value\<close>: booleans print as \<open>yes\<close> and \<open>no\<close>, an
  enum member as its value, the strings \<open>yes\<close> and \<open>no\<close> bare, any other string in double
  quotes with backslashes escaped first and quotes second, an integer as its digits.
\<close>

lemma format_primitive_value_atoms:
  "format_primitive_value env (PBool True) = ''yes''"
  "format_primitive_value env (PBool False) = ''no''"
  "format_primitive_value env (PEnum c n v) = v"
  "format_primitive_value env (PStr ''yes'') = ''yes''"
  "format_primitive_value env (PStr ''no'') = ''no''"
  "s \<noteq> ''yes'' \<Longrightarrow> s \<noteq> ''no'' \<Longrightarrow>
   format_primitive_value env (PStr s) =
     [CHR ''\"''] @ replace_char (CHR ''\"'') [CHR 0x5C, CHR ''\"'']
                      (replace_char (CHR 0x5C) [CHR 0x5C, CHR 0x5C] s) @ [CHR ''\"'']"
  "format_primitive_value env (PInt i) = str_of_int i"
  "format_primitive_value env (PFloat x) = str_of_float env x"
  by (simp_all add: quote_str_def)

lemma format_primitive_value_escapes:
  "format_primitive_value env (PStr [CHR ''a'', CHR 0x5C, CHR ''\"'', CHR ''b''])
   = [CHR ''\"'', CHR ''a'', CHR 0x5C, CHR 0x5C, CHR 0x5C, CHR ''\"'', CHR ''b'', CHR ''\"'']"
  by (simp add: quote_str_def replace_char_def)

text \<open>
  C8 at the input where the code departs from it. The head \<open>pe\<close> is not the keyword
  \<open>type\<close>, yet its string child prints unquoted, as under \<open>type\<close>: the source tests
  \<open>token_name in ("type")\<close>, which is a substring test on the string \<open>"type"\<close>. Under a
  head that is not a substring of \<open>type\<close>, such as \<open>layer\<close>, the child is quoted.
\<close>

theorem type_substring_head_unquoted:
  "format_sexpr_kicad_style env (PList [PStr ''pe'', PStr ''abc'']) 0 = ''(pe abc)'' \<and>
   format_sexpr_kicad_style env (PList [PStr ''type'', PStr ''abc'']) 0 = ''(type abc)'' \<and>
   format_sexpr_kicad_style env (PList [PStr ''layer'', PStr ''abc'']) 0 = ''(layer \"abc\")''"
  by (simp add: format_children_def quote_str_def replace_char_def)

subsection \<open>Token gate\<close>

text \<open>
  C2. When the head of the term, as text, is neither the token of the class nor one of
  its legacy tokens, decoding raises the token-mismatch error and returns no instance:
  at the top level for every strictness, and in a nested decode for every cursor. The
  log is left as it was.
\<close>

theorem token_gate:
  assumes "py_str env h \<notin> set (class_token_name (classes env c) # legacy_token_names (classes env c))"
  shows "from_sexpr env c (PList (h # rest)) strict lg =
           (Inl (ValueError (TokenMismatch [c] (class_token_name (classes env c)) (py_str env h))), lg) \<and>
         from_sexpr_cursor env c (cur\<lparr>sexpr := PList (h # rest)\<rparr>) lg =
           (Inl (ValueError (TokenMismatch (path cur) (class_token_name (classes env c)) (py_str env h))), lg)"
  using assms by (simp add: from_sexpr_def py_getitem_def)

theorem token_gate_witness:
  "py_str example_env (PSymbol ''not_net'')
     \<notin> set (class_token_name (classes example_env ''Net'') # legacy_token_names (classes example_env ''Net'')) \<and>
   from_sexpr example_env ''Net'' (PList [PSymbol ''not_net'', PInt 1, PSymbol ''GND'']) SILENT []
     = (Inl (ValueError (TokenMismatch [''Net''] ''net'' ''not_net'')), [])"
proof -
  have h: "py_str example_env (PSymbol ''not_net'')
     \<notin> set (class_token_name (classes example_env ''Net'') # legacy_token_names (classes example_env ''Net''))"
    by (simp add: example_env_def example_classes_def Net_class_def)
  show ?thesis
    using h token_gate[OF h, of "[PInt 1, PSymbol ''GND'']" SILENT "[]" undefined]
    by (simp add: example_env_def example_classes_def Net_class_def)
qed

subsection \<open>Boolean scalars\<close>

text \<open>
  C10. When the element at the index exists and is an atom (not a nested list, and not
  \<open>None\<close>, which is no atom of a term), \<open>parse_bool\<close> returns \<open>True\<close> exactly when the
  lower-cased text of the atom is \<open>yes\<close>, \<open>true\<close> or \<open>1\<close>, and \<open>False\<close> otherwise. It marks
  the index, raises nothing and logs nothing, whatever the strictness of the cursor and
  whether or not the field is required.
\<close>

theorem parse_bool_total:
  assumes "py_getitem env (sexpr cur) index = Inr v" and "\<not> is_pylist v" and "v \<noteq> PNone"
  shows "parse_bool env index field_name required cur lg =
           (Inr (PBool (lower (py_str env v) \<in> {''yes'', ''true'', ''1''})), mark_used index cur, lg)"
  using assms
  by (auto simp: parse_bool_def get_value_at_index_def py_getitem_def py_len_def bool_of_text_def
      split: option.splits if_splits)

theorem parse_bool_total_witness:
  "py_getitem example_env (PList [PSymbol ''hide'', PSymbol ''maybe'']) 1 = Inr (PSymbol ''maybe'') \<and>
   \<not> is_pylist (PSymbol ''maybe'' :: int pyval) \<and> PSymbol ''maybe'' \<noteq> (PNone :: int pyval) \<and>
   parse_bool example_env 1 ''value'' True
     \<lparr>sexpr = PList [PSymbol ''hide'', PSymbol ''maybe''], parser = {}, path = [''Hide''], strictness = STRICT\<rparr> []
   = (Inr (PBool False),
      \<lparr>sexpr = PList [PSymbol ''hide'', PSymbol ''maybe''], parser = {1}, path = [''Hide''], strictness = STRICT\<rparr>, []) \<and>
   parse_bool example_env 1 ''value'' True
     \<lparr>sexpr = PList [PSymbol ''hide'', PSymbol ''YES''], parser = {}, path = [''Hide''], strictness = STRICT\<rparr> []
   = (Inr (PBool True),
      \<lparr>sexpr = PList [PSymbol ''hide'', PSymbol ''YES''], parser = {1}, path = [''Hide''], strictness = STRICT\<rparr>, [])"
proof -
  have g1: "py_getitem example_env (PList [PSymbol ''hide'', PSymbol ''maybe'']) 1 = Inr (PSymbol ''maybe'')"
    by (simp add: py_getitem_def)
  have g2: "py_getitem example_env (PList [PSymbol ''hide'', PSymbol ''YES'']) 1 = Inr (PSymbol ''YES'')"
    by (simp add: py_getitem_def)
  have 1: "parse_bool example_env 1 ''value'' True
     \<lparr>sexpr = PList [PSymbol ''hide'', PSymbol ''maybe''], parser = {}, path = [''Hide''], strictness = STRICT\<rparr> []
   = (Inr (PBool False),
      \<lparr>sexpr = PList [PSymbol ''hide'', PSymbol ''maybe''], parser = {1}, path = [''Hide''], strictness = STRICT\<rparr>, [])"
    using parse_bool_total[of example_env "\<lparr>sexpr = PList [PSymbol ''hide'', PSymbol ''maybe''], parser = {}, path = [''Hide''], strictness = STRICT\<rparr>" 1 "PSymbol ''maybe''" "''value''" True "[]"] g1
    by (simp add: mark_used_def lower_def ascii_lower_def)
  have 2: "parse_bool example_env 1 ''value'' True
     \<lparr>sexpr = PList [PSymbol ''hide'', PSymbol ''YES''], parser = {}, path = [''Hide''], strictness = STRICT\<rparr> []
   = (Inr (PBool True),
      \<lparr>sexpr = PList [PSymbol ''hide'', PSymbol ''YES''], parser = {1}, path = [''Hide''], strictness = STRICT\<rparr>, [])"
    using parse_bool_total[of example_env "\<lparr>sexpr = PList [PSymbol ''hide'', PSymbol ''YES''], parser = {}, path = [''Hide''], strictness = STRICT\<rparr>" 1 "PSymbol ''YES''" "''value''" True "[]"] g2
    by (simp add: mark_used_def lower_def ascii_lower_def)
  show ?thesis using g1 1 2 by simp
qed

subsection \<open>Unused elements\<close>

text \<open>The field infos of \<open>Net\<close>: two required positional scalars.\<close>

lemma classify_Net:
  "classes env ''Net'' = Net_class \<Longrightarrow> classify_fields env ''Net'' =
    [\<lparr>name = ''number'', field_type = PRIMITIVE, inner_type = TInt, is_optional = False,
      is_list = False, token_name = None, position_index = 0\<rparr>,
     \<lparr>name = ''name'', field_type = PRIMITIVE, inner_type = TStr, is_optional = False,
      is_list = False, token_name = None, position_index = 1\<rparr>]"
  by (simp add: classify_fields_def Net_class_def classify_field_def)

text \<open>
  Decoding a \<open>net\<close> term with an integer and a string binds both fields and returns the
  instance, whatever follows the two elements and whatever the strictness: \<open>from_sexpr\<close>
  never reads which indices were left unused.
\<close>

lemma net_decode_general:
  assumes "classes env ''Net'' = Net_class"
  shows "from_sexpr env ''Net'' (PList (PSymbol ''net'' # PInt n # PStr s # extra)) strict lg
       = (Inr (KiCadObject ''Net'' [(''number'', PInt n), (''name'', PStr s)]), lg)"
  using assms
  by (simp add: from_sexpr_def py_getitem_def classify_Net Net_class_def parse_field_def
      parse_primitive_field_def has_token_def parse_positional_def parse_int_def parse_str_def
      get_value_at_index_def py_len_def mark_used_def construct_def)

text \<open>
  C3 at the input where the code departs from it: \<open>(net 1 GND extra)\<close> has an element
  that no field claims, and Strict returns the same instance as Failsafe and Silent
  instead of raising.
\<close>

theorem strict_accepts_unused_elements:
  "from_sexpr example_env ''Net'' (PList [PSymbol ''net'', PInt 1, PSymbol ''GND'', PSymbol ''extra'']) STRICT []
     = (Inr (KiCadObject ''Net'' [(''number'', PInt 1), (''name'', PStr ''GND'')]), []) \<and>
   from_sexpr example_env ''Net'' (PList [PSymbol ''net'', PInt 1, PSymbol ''GND'', PSymbol ''extra'']) FAILSAFE []
     = (Inr (KiCadObject ''Net'' [(''number'', PInt 1), (''name'', PStr ''GND'')]), []) \<and>
   from_sexpr example_env ''Net'' (PList [PSymbol ''net'', PInt 1, PSymbol ''GND'', PSymbol ''extra'']) SILENT []
     = (Inr (KiCadObject ''Net'' [(''number'', PInt 1), (''name'', PStr ''GND'')]), [])"
  by code_simp

subsection \<open>Round trip\<close>

text \<open>
  A \<open>Net\<close> instance with an integer and a string survives encoding and strict decoding.
\<close>

lemma net_round_trip:
  assumes "classes env ''Net'' = Net_class"
  shows "to_sexpr env (KiCadObject ''Net'' [(''number'', PInt n), (''name'', PStr s)])
           = Inr (PList [PStr ''net'', PInt n, PStr s]) \<and>
         from_sexpr env ''Net'' (PList [PStr ''net'', PInt n, PStr s]) STRICT lg
           = (Inr (KiCadObject ''Net'' [(''number'', PInt n), (''name'', PStr s)]), lg)"
  using assms
  by (simp add: from_sexpr_def py_getitem_def classify_Net Net_class_def parse_field_def
      parse_primitive_field_def has_token_def parse_positional_def parse_int_def parse_str_def
      get_value_at_index_def py_len_def mark_used_def construct_def)

text \<open>
  Every \<open>chamfer\<close> term decodes to an instance with no corners: \<open>_parse_list_field\<close>
  has no branch for a list of scalars and returns the empty list.
\<close>

lemma chamfer_decode_general:
  assumes "classes env ''Chamfer'' = Chamfer_class"
  shows "from_sexpr env ''Chamfer'' (PList (PStr ''chamfer'' # corners)) strict lg
       = (Inr (KiCadObject ''Chamfer'' [(''corners'', PList [])]), lg)"
  using assms
  by (simp add: from_sexpr_def py_getitem_def classify_fields_def Chamfer_class_def classify_field_def
      parse_field_def parse_list_field_def can_self_parse_def construct_def)

text \<open>
  C1 at the input where the code departs from it: \<open>Chamfer(corners=["top_left"])\<close>
  encodes to \<open>(chamfer "top_left")\<close>, which decodes under Strict to
  \<open>Chamfer(corners=[])\<close>, an instance that is not equal to the one encoded.
\<close>

theorem chamfer_round_trip_loses_corners:
  "to_sexpr example_env (KiCadObject ''Chamfer'' [(''corners'', PList [PStr ''top_left''])])
     = Inr (PList [PStr ''chamfer'', PStr ''top_left'']) \<and>
   from_sexpr example_env ''Chamfer'' (PList [PStr ''chamfer'', PStr ''top_left'']) STRICT []
     = (Inr (KiCadObject ''Chamfer'' [(''corners'', PList [])]), []) \<and>
   \<not> py_eq example_env (KiCadObject ''Chamfer'' [(''corners'', PList [])])
          (KiCadObject ''Chamfer'' [(''corners'', PList [PStr ''top_left''])])"
  by code_simp

subsection \<open>Scalar anomalies and the strictness policy\<close>

text \<open>
  \<open>log_issue\<close> followed by \<open>return None\<close>, by strictness: Strict raises, Failsafe logs
  and yields \<open>None\<close>, Silent yields \<open>None\<close>.
\<close>

lemma issue_then_none_graded:
  "issue_then_none cur m lg =
     (case strictness cur of
        STRICT \<Rightarrow> (Inl (ValueError m), cur, lg)
      | FAILSAFE \<Rightarrow> (Inr PNone, cur, lg @ [m])
      | SILENT \<Rightarrow> (Inr PNone, cur, lg))"
  by (simp add: issue_then_none_def log_issue_def split: ParseStrictness.splits)

lemma enum_by_value_error:
  "(enum_by_value c members s :: py_exc + 'f pyval) = Inl e \<Longrightarrow> is_value_error e"
  by (auto simp: enum_by_value_def split: option.splits)

text \<open>
  A scalar field is bound by position: the classifier gives no token to a field whose
  elements are scalars.
\<close>

lemma classify_field_primitive_no_token:
  "field_type (classify_field env nm hint position f) = PRIMITIVE
   \<Longrightarrow> \<not> has_token (classify_field env nm hint position f)"
  by (auto simp: classify_field_def has_token_def Let_def split: decl_type.splits if_splits)

lemma classify_fields_from_primitive_no_token:
  "fi \<in> set (classify_fields_from env fs position) \<Longrightarrow> field_type fi = PRIMITIVE \<Longrightarrow> \<not> has_token fi"
proof (induction fs arbitrary: position)
  case Nil
  then show ?case by simp
next
  case (Cons f fs)
  then show ?case
    by (auto simp: Let_def dest: classify_field_primitive_no_token split: if_splits)
qed

lemma classify_fields_primitive_no_token:
  "fi \<in> set (classify_fields env c) \<Longrightarrow> field_type fi = PRIMITIVE \<Longrightarrow> \<not> has_token fi"
  unfolding classify_fields_def by (rule classify_fields_from_primitive_no_token)

text \<open>
  A field whose parse yields \<open>None\<close> is left out of \<open>parsed_values\<close>, the loop goes on
  with the next field, and the constructor gives the field its declared default.
\<close>

lemma parse_fields_skips_none:
  "parse_field dec env fi cur lg = (Inr PNone, cur', lg')
   \<Longrightarrow> parse_fields dec env (fi # rest) parsed_values cur lg
       = parse_fields dec env rest parsed_values cur' lg'"
  by simp

lemma init_fields_default:
  "parsed_values (df_name f) = None \<Longrightarrow> df_default f = Default d
   \<Longrightarrow> init_fields (f # fs) parsed_values
       = (case init_fields fs parsed_values of Inl e \<Rightarrow> Inl e | Inr vs \<Rightarrow> Inr ((df_name f, d) # vs))"
  by simp

text \<open>
  At the field: a missing required element, a value whose conversion raises
  \<open>ValueError\<close> or \<open>TypeError\<close>, and a nested list found where a required scalar is
  expected all end in \<open>log_issue\<close> followed by \<open>return None\<close>.
\<close>

lemma scalar_anomaly_at_field:
  assumes "\<not> has_token fi"
  shows
   "(py_len env (sexpr cur) = Inr n \<and> n \<le> position_index fi + 1 \<and> \<not> is_optional fi \<longrightarrow>
       parse_primitive_field env fi cur lg =
         (case strictness cur of
            STRICT \<Rightarrow>
              (Inl (ValueError (MissingRequired (path cur) (type_label (inner_type fi)) (name fi)
                                  (position_index fi + 1))), cur, lg)
          | FAILSAFE \<Rightarrow>
              (Inr PNone, cur,
               lg @ [MissingRequired (path cur) (type_label (inner_type fi)) (name fi)
                       (position_index fi + 1)])
          | SILENT \<Rightarrow> (Inr PNone, cur, lg))) \<and>
    (py_getitem env (sexpr cur) (position_index fi + 1) = Inr v \<and> \<not> is_pylist v \<and> v \<noteq> PNone \<and>
     conversion_fails env (inner_type fi) v \<longrightarrow>
       parse_primitive_field env fi cur lg =
         (case strictness cur of
            STRICT \<Rightarrow>
              (Inl (ValueError (conversion_issue (path cur) (inner_type fi) (py_str env v) (name fi))),
               mark_used (position_index fi + 1) cur, lg)
          | FAILSAFE \<Rightarrow>
              (Inr PNone, mark_used (position_index fi + 1) cur,
               lg @ [conversion_issue (path cur) (inner_type fi) (py_str env v) (name fi)])
          | SILENT \<Rightarrow> (Inr PNone, mark_used (position_index fi + 1) cur, lg))) \<and>
    (py_getitem env (sexpr cur) (position_index fi + 1) = Inr v \<and> is_pylist v \<and> \<not> is_optional fi \<longrightarrow>
       parse_primitive_field env fi cur lg =
         (case strictness cur of
            STRICT \<Rightarrow>
              (Inl (ValueError (ExpectedGotList (path cur) (type_label (inner_type fi)) (name fi))), cur, lg)
          | FAILSAFE \<Rightarrow>
              (Inr PNone, cur, lg @ [ExpectedGotList (path cur) (type_label (inner_type fi)) (name fi)])
          | SILENT \<Rightarrow> (Inr PNone, cur, lg)))"
proof (intro conjI impI)
  assume a: "py_len env (sexpr cur) = Inr n \<and> n \<le> position_index fi + 1 \<and> \<not> is_optional fi"
  have g: "get_value_at_index env (Suc (position_index fi)) (name fi) tn True cur lg =
             issue_then_none cur (MissingRequired (path cur) tn (name fi) (Suc (position_index fi))) lg" for tn
    using a by (simp add: get_value_at_index_def issue_if_then_none_def)
  show "parse_primitive_field env fi cur lg =
         (case strictness cur of
            STRICT \<Rightarrow>
              (Inl (ValueError (MissingRequired (path cur) (type_label (inner_type fi)) (name fi)
                                  (position_index fi + 1))), cur, lg)
          | FAILSAFE \<Rightarrow>
              (Inr PNone, cur,
               lg @ [MissingRequired (path cur) (type_label (inner_type fi)) (name fi)
                       (position_index fi + 1)])
          | SILENT \<Rightarrow> (Inr PNone, cur, lg))"
    using assms a
    by (cases "inner_type fi"; cases "strictness cur")
       (simp_all add: parse_primitive_field_def parse_positional_def parse_int_def parse_float_def
          parse_str_def parse_bool_def parse_enum_def g issue_then_none_graded)
next
  assume b: "py_getitem env (sexpr cur) (position_index fi + 1) = Inr v \<and> \<not> is_pylist v \<and> v \<noteq> PNone \<and>
     conversion_fails env (inner_type fi) v"
  have g: "get_value_at_index env (Suc (position_index fi)) (name fi) tn rq cur lg =
             (Inr v, mark_used (Suc (position_index fi)) cur, lg)" for tn rq
    using b by (auto simp: get_value_at_index_def py_getitem_def py_len_def split: option.splits if_splits)
  have p: "path (mark_used i cur) = path cur" "strictness (mark_used i cur) = strictness cur" for i
    by (simp_all add: mark_used_def)
  show "parse_primitive_field env fi cur lg =
         (case strictness cur of
            STRICT \<Rightarrow>
              (Inl (ValueError (conversion_issue (path cur) (inner_type fi) (py_str env v) (name fi))),
               mark_used (position_index fi + 1) cur, lg)
          | FAILSAFE \<Rightarrow>
              (Inr PNone, mark_used (position_index fi + 1) cur,
               lg @ [conversion_issue (path cur) (inner_type fi) (py_str env v) (name fi)])
          | SILENT \<Rightarrow> (Inr PNone, mark_used (position_index fi + 1) cur, lg))"
    using assms b
    by (cases "inner_type fi"; cases "strictness cur")
       (auto simp: parse_primitive_field_def parse_positional_def parse_int_def parse_float_def
          parse_enum_def g p issue_then_none_graded dest: enum_by_value_error split: sum.splits)
next
  assume c: "py_getitem env (sexpr cur) (position_index fi + 1) = Inr v \<and> is_pylist v \<and> \<not> is_optional fi"
  have g: "get_value_at_index env (Suc (position_index fi)) (name fi) tn True cur lg =
             issue_then_none cur (ExpectedGotList (path cur) tn (name fi)) lg" for tn
    using c by (auto simp: get_value_at_index_def py_getitem_def py_len_def issue_if_then_none_def
        split: option.splits if_splits)
  show "parse_primitive_field env fi cur lg =
         (case strictness cur of
            STRICT \<Rightarrow>
              (Inl (ValueError (ExpectedGotList (path cur) (type_label (inner_type fi)) (name fi))), cur, lg)
          | FAILSAFE \<Rightarrow>
              (Inr PNone, cur, lg @ [ExpectedGotList (path cur) (type_label (inner_type fi)) (name fi)])
          | SILENT \<Rightarrow> (Inr PNone, cur, lg))"
    using assms c
    by (cases "inner_type fi"; cases "strictness cur")
       (simp_all add: parse_primitive_field_def parse_positional_def parse_int_def parse_float_def
          parse_str_def parse_bool_def parse_enum_def g issue_then_none_graded)
qed

text \<open>
  The whole decode at the two anomalies: the sibling field is still bound, and the
  field with the anomaly takes its declared default outside Strict.
\<close>

lemma net_conversion_failure_example:
  "from_sexpr example_env ''Net'' (PList [PSymbol ''net'', PSymbol ''not_a_number'', PSymbol ''GND'']) STRICT []
     = (Inl (ValueError (CannotConvert [''Net''] ''not_a_number'' ''int'' ''number'')), []) \<and>
   from_sexpr example_env ''Net'' (PList [PSymbol ''net'', PSymbol ''not_a_number'', PSymbol ''GND'']) FAILSAFE []
     = (Inr (KiCadObject ''Net'' [(''number'', PInt 0), (''name'', PStr ''GND'')]),
        [CannotConvert [''Net''] ''not_a_number'' ''int'' ''number'']) \<and>
   from_sexpr example_env ''Net'' (PList [PSymbol ''net'', PSymbol ''not_a_number'', PSymbol ''GND'']) SILENT []
     = (Inr (KiCadObject ''Net'' [(''number'', PInt 0), (''name'', PStr ''GND'')]), [])"
  by code_simp

lemma net_missing_field_example:
  "from_sexpr example_env ''Net'' (PList [PSymbol ''net'', PInt 7]) STRICT []
     = (Inl (ValueError (MissingRequired [''Net''] ''str'' ''name'' 2)), []) \<and>
   from_sexpr example_env ''Net'' (PList [PSymbol ''net'', PInt 7]) FAILSAFE []
     = (Inr (KiCadObject ''Net'' [(''number'', PInt 7), (''name'', PStr '''')]),
        [MissingRequired [''Net''] ''str'' ''name'' 2]) \<and>
   from_sexpr example_env ''Net'' (PList [PSymbol ''net'', PInt 7]) SILENT []
     = (Inr (KiCadObject ''Net'' [(''number'', PInt 7), (''name'', PStr '''')]), [])"
  by code_simp

subsection \<open>From a field to the whole decode\<close>

text \<open>
  The loops over list elements and over fields run a prefix first and go on from the
  state it leaves. Once the token is accepted, \<open>from_sexpr\<close> is the field loop followed
  by the constructor; an exception raised while binding a field is the outcome of the
  decode; a field whose binding yields \<open>None\<close> stays out of \<open>parsed_values\<close>, and the
  constructor gives every dataclass field its parsed value or else its declared default.
\<close>

lemma parse_list_known_append:
  "parse_list_known dec env fi (xs @ ys) idx result cur lg =
     (case parse_list_known dec env fi xs idx result cur lg of
        (Inl e, c, l) \<Rightarrow> (Inl e, c, l)
      | (Inr result', c, l) \<Rightarrow> parse_list_known dec env fi ys (idx + length xs) result' c l)"
proof (induction xs arbitrary: idx result cur lg)
  case Nil
  then show ?case by simp
next
  case (Cons x xs)
  show ?case
    by (simp add: Let_def Cons.IH split: prod.splits sum.splits)
qed

lemma parse_list_unknown_append:
  "parse_list_unknown dec env fi (xs @ ys) idx result cur lg =
     (case parse_list_unknown dec env fi xs idx result cur lg of
        (Inl e, c, l) \<Rightarrow> (Inl e, c, l)
      | (Inr result', c, l) \<Rightarrow> parse_list_unknown dec env fi ys (idx + length xs) result' c l)"
proof (induction xs arbitrary: idx result cur lg)
  case Nil
  then show ?case by simp
next
  case (Cons x xs)
  show ?case
    by (simp add: Let_def Cons.IH split: prod.splits sum.splits)
qed

lemma parse_fields_append:
  "parse_fields dec env (xs @ ys) pv cur lg =
     (case parse_fields dec env xs pv cur lg of
        (Inl e, c, l) \<Rightarrow> (Inl e, c, l)
      | (Inr pv', c, l) \<Rightarrow> parse_fields dec env ys pv' c l)"
proof (induction xs arbitrary: pv cur lg)
  case Nil
  then show ?case by simp
next
  case (Cons x xs)
  show ?case
    by (simp add: Cons.IH split: prod.splits sum.splits)
qed

lemma from_sexpr_cursor_accepted:
  assumes "token_accepted env c cur"
  shows "from_sexpr_cursor env c cur lg =
           (case parse_fields (nested_from_sexpr env) env (classify_fields env c) Map.empty cur lg of
              (Inl e, cur', lg') \<Rightarrow> (Inl e, lg')
            | (Inr parsed_values, cur', lg') \<Rightarrow> (construct env c parsed_values, lg'))"
  using assms
  by (auto simp: token_accepted_def head_token_def nested_from_sexpr_def split: sum.splits if_splits)

lemma field_error_aborts_decode:
  assumes "token_accepted env c cur"
    and "classify_fields env c = pre @ fi # post"
    and "parse_fields (nested_from_sexpr env) env pre Map.empty cur lg = (Inr pv1, cur1, lg1)"
    and "parse_field (nested_from_sexpr env) env fi cur1 lg1 = (Inl e, cur2, lg2)"
  shows "from_sexpr_cursor env c cur lg = (Inl e, lg2)"
  using assms by (simp add: from_sexpr_cursor_accepted parse_fields_append del: from_sexpr_cursor.simps)

lemma parse_fields_other_keys:
  "parse_fields dec env fis pv cur lg = (Inr pv', cur', lg') \<Longrightarrow> k \<notin> name ` set fis \<Longrightarrow> pv' k = pv k"
proof (induction fis arbitrary: pv cur lg)
  case Nil
  then show ?case by simp
next
  case (Cons fi rest)
  obtain r c l where p: "parse_field dec env fi cur lg = (r, c, l)"
    by (cases "parse_field dec env fi cur lg")
  show ?case
  proof (cases r)
    case (Inl e)
    then show ?thesis using Cons.prems p by simp
  next
    case (Inr v)
    then have "parse_fields dec env rest (if v \<noteq> PNone then pv(name fi \<mapsto> v) else pv) c l = (Inr pv', cur', lg')"
      using Cons.prems p by simp
    from Cons.IH[OF this] Cons.prems(2) show ?thesis by (auto split: if_splits)
  qed
qed

lemma init_fields_takes_default:
  "init_fields fs pv = Inr vs \<Longrightarrow> f \<in> set fs \<Longrightarrow> pv (df_name f) = None \<Longrightarrow> declared_default f = Some d
   \<Longrightarrow> (df_name f, d) \<in> set vs"
  by (induction fs arbitrary: vs)
     (auto simp: declared_default_def split: sum.splits option.splits field_default.splits)

lemma init_fields_takes_parsed:
  "init_fields fs pv = Inr vs \<Longrightarrow> f \<in> set fs \<Longrightarrow> pv (df_name f) = Some v
   \<Longrightarrow> (df_name f, v) \<in> set vs"
  by (induction fs arbitrary: vs)
     (auto split: sum.splits option.splits field_default.splits)

lemma unset_field_decode:
  assumes acc: "token_accepted env c cur"
    and fis: "classify_fields env c = pre @ fi # post"
    and nm: "name fi \<notin> name ` set (pre @ post)"
    and p1: "parse_fields (nested_from_sexpr env) env pre Map.empty cur lg = (Inr pv1, cur1, lg1)"
    and p2: "parse_field (nested_from_sexpr env) env fi cur1 lg1 = (Inr PNone, cur2, lg2)"
    and p3: "parse_fields (nested_from_sexpr env) env post pv1 cur2 lg2 = (Inr pv3, cur3, lg3)"
    and ini: "init_fields (class_fields (classes env c)) pv3 = Inr vs"
    and tok: "class_token_name (classes env c) \<noteq> []"
  shows "from_sexpr_cursor env c cur lg = (Inr (KiCadObject c vs), lg3)"
    and "pv3 (name fi) = None"
proof -
  show "from_sexpr_cursor env c cur lg = (Inr (KiCadObject c vs), lg3)"
    using acc fis p1 p2 p3 ini tok
    by (simp add: from_sexpr_cursor_accepted parse_fields_append construct_def del: from_sexpr_cursor.simps)
  have "pv1 (name fi) = None"
    using parse_fields_other_keys[OF p1, of "name fi"] nm by auto
  then show "pv3 (name fi) = None"
    using parse_fields_other_keys[OF p3, of "name fi"] nm by auto
qed

subsection \<open>Scalar anomalies: the graded outcome\<close>

text \<open>
  C5, as the code has it. For a scalar field (bound by position), a missing required
  element, a conversion that fails with \<open>ValueError\<close> or \<open>TypeError\<close>, and a nested list
  found where a required scalar is expected are routed through the strictness policy in
  the same way: under Strict the binding raises a \<open>ValueError\<close> with the issue; under
  Failsafe it yields \<open>None\<close> and the issue is appended to the log; under Silent it
  yields \<open>None\<close> and the log is unchanged. When the binding of a scalar field raises,
  the whole decode raises that exception. When it yields \<open>None\<close>, the decode goes on
  with the fields after it from the state the anomaly left, and the instance it builds
  holds the declared default at that field and the parsed value at every field that
  was bound.
\<close>

theorem scalar_anomalies_graded:
  assumes "\<not> has_token fi"
  shows
   "(py_len env (sexpr cur) = Inr n \<and> n \<le> position_index fi + 1 \<and> \<not> is_optional fi \<longrightarrow>
       parse_primitive_field env fi cur lg =
         (case strictness cur of
            STRICT \<Rightarrow>
              (Inl (ValueError (MissingRequired (path cur) (type_label (inner_type fi)) (name fi)
                                  (position_index fi + 1))), cur, lg)
          | FAILSAFE \<Rightarrow>
              (Inr PNone, cur,
               lg @ [MissingRequired (path cur) (type_label (inner_type fi)) (name fi)
                       (position_index fi + 1)])
          | SILENT \<Rightarrow> (Inr PNone, cur, lg))) \<and>
    (py_getitem env (sexpr cur) (position_index fi + 1) = Inr v \<and> \<not> is_pylist v \<and> v \<noteq> PNone \<and>
     conversion_fails env (inner_type fi) v \<longrightarrow>
       parse_primitive_field env fi cur lg =
         (case strictness cur of
            STRICT \<Rightarrow>
              (Inl (ValueError (conversion_issue (path cur) (inner_type fi) (py_str env v) (name fi))),
               mark_used (position_index fi + 1) cur, lg)
          | FAILSAFE \<Rightarrow>
              (Inr PNone, mark_used (position_index fi + 1) cur,
               lg @ [conversion_issue (path cur) (inner_type fi) (py_str env v) (name fi)])
          | SILENT \<Rightarrow> (Inr PNone, mark_used (position_index fi + 1) cur, lg))) \<and>
    (py_getitem env (sexpr cur) (position_index fi + 1) = Inr v \<and> is_pylist v \<and> \<not> is_optional fi \<longrightarrow>
       parse_primitive_field env fi cur lg =
         (case strictness cur of
            STRICT \<Rightarrow>
              (Inl (ValueError (ExpectedGotList (path cur) (type_label (inner_type fi)) (name fi))), cur, lg)
          | FAILSAFE \<Rightarrow>
              (Inr PNone, cur, lg @ [ExpectedGotList (path cur) (type_label (inner_type fi)) (name fi)])
          | SILENT \<Rightarrow> (Inr PNone, cur, lg)))
 \<and>
    (token_accepted env c cur0 \<and> classify_fields env c = pre @ fi # post \<and>
     \<not> is_list fi \<and> field_type fi = PRIMITIVE \<and>
     parse_fields (nested_from_sexpr env) env pre Map.empty cur0 lg0 = (Inr pv1, cur, lg) \<and>
     parse_primitive_field env fi cur lg = (Inl e, cur2, lg2) \<longrightarrow>
       from_sexpr_cursor env c cur0 lg0 = (Inl e, lg2)) \<and>
    (token_accepted env c cur0 \<and> classify_fields env c = pre @ fi # post \<and>
     \<not> is_list fi \<and> field_type fi = PRIMITIVE \<and> name fi \<notin> name ` set (pre @ post) \<and>
     parse_fields (nested_from_sexpr env) env pre Map.empty cur0 lg0 = (Inr pv1, cur, lg) \<and>
     parse_primitive_field env fi cur lg = (Inr PNone, cur2, lg2) \<and>
     parse_fields (nested_from_sexpr env) env post pv1 cur2 lg2 = (Inr pv3, cur3, lg3) \<and>
     init_fields (class_fields (classes env c)) pv3 = Inr vs \<and>
     class_token_name (classes env c) \<noteq> [] \<longrightarrow>
       from_sexpr_cursor env c cur0 lg0 = (Inr (KiCadObject c vs), lg3) \<and>
       (\<forall>f \<in> set (class_fields (classes env c)).
          (\<forall>d. df_name f = name fi \<and> declared_default f = Some d \<longrightarrow> (df_name f, d) \<in> set vs) \<and>
          (\<forall>x. pv3 (df_name f) = Some x \<longrightarrow> (df_name f, x) \<in> set vs)))"
proof -
  have pf: "parse_field dec env fi cur lg = parse_primitive_field env fi cur lg"
    if "\<not> is_list fi" "field_type fi = PRIMITIVE" for dec
    using that by (simp add: parse_field_def)
  have abort: "from_sexpr_cursor env c cur0 lg0 = (Inl e, lg2)"
    if "token_accepted env c cur0 \<and> classify_fields env c = pre @ fi # post \<and>
        \<not> is_list fi \<and> field_type fi = PRIMITIVE \<and>
        parse_fields (nested_from_sexpr env) env pre Map.empty cur0 lg0 = (Inr pv1, cur, lg) \<and>
        parse_primitive_field env fi cur lg = (Inl e, cur2, lg2)"
    using that field_error_aborts_decode[of env c cur0 pre fi post lg0 pv1 cur lg e cur2 lg2] pf
    by simp
  have unset: "from_sexpr_cursor env c cur0 lg0 = (Inr (KiCadObject c vs), lg3) \<and>
       (\<forall>f \<in> set (class_fields (classes env c)).
          (\<forall>d. df_name f = name fi \<and> declared_default f = Some d \<longrightarrow> (df_name f, d) \<in> set vs) \<and>
          (\<forall>x. pv3 (df_name f) = Some x \<longrightarrow> (df_name f, x) \<in> set vs))"
    if h: "token_accepted env c cur0 \<and> classify_fields env c = pre @ fi # post \<and>
     \<not> is_list fi \<and> field_type fi = PRIMITIVE \<and> name fi \<notin> name ` set (pre @ post) \<and>
     parse_fields (nested_from_sexpr env) env pre Map.empty cur0 lg0 = (Inr pv1, cur, lg) \<and>
     parse_primitive_field env fi cur lg = (Inr PNone, cur2, lg2) \<and>
     parse_fields (nested_from_sexpr env) env post pv1 cur2 lg2 = (Inr pv3, cur3, lg3) \<and>
     init_fields (class_fields (classes env c)) pv3 = Inr vs \<and>
     class_token_name (classes env c) \<noteq> []"
  proof -
    have p2: "parse_field (nested_from_sexpr env) env fi cur lg = (Inr PNone, cur2, lg2)"
      using h pf by simp
    have d: "from_sexpr_cursor env c cur0 lg0 = (Inr (KiCadObject c vs), lg3)"
      and u: "pv3 (name fi) = None"
      using unset_field_decode[of env c cur0 pre fi post lg0 pv1 cur lg cur2 lg2 pv3 cur3 lg3 vs] h p2
      by blast+
    have "(df_name f, d') \<in> set vs"
      if "f \<in> set (class_fields (classes env c))" "df_name f = name fi" "declared_default f = Some d'" for f d'
      using init_fields_takes_default[of "class_fields (classes env c)" pv3 vs f d'] h that u by simp
    moreover have "(df_name f, x) \<in> set vs"
      if "f \<in> set (class_fields (classes env c))" "pv3 (df_name f) = Some x" for f x
      using init_fields_takes_parsed[of "class_fields (classes env c)" pv3 vs f x] h that by simp
    ultimately show ?thesis using d by blast
  qed
  show ?thesis
    using scalar_anomaly_at_field[OF assms, of env cur n lg v] abort unset by blast
qed

text \<open>
  \<open>(net not_a_number GND)\<close> under Failsafe: the conversion of \<open>number\<close> fails, the issue
  is logged, and the decode returns \<open>Net(number=0, name="GND")\<close>.
\<close>

theorem scalar_anomalies_graded_witness:
  "conversion_fails example_env TInt (PSymbol ''not_a_number'') \<and>
   parse_primitive_field example_env
     \<lparr>name = ''number'', field_type = PRIMITIVE, inner_type = TInt, is_optional = False,
      is_list = False, token_name = None, position_index = 0\<rparr>
     \<lparr>sexpr = PList [PSymbol ''net'', PSymbol ''not_a_number'', PSymbol ''GND''], parser = {},
      path = [''Net''], strictness = FAILSAFE\<rparr> []
   = (Inr PNone,
      \<lparr>sexpr = PList [PSymbol ''net'', PSymbol ''not_a_number'', PSymbol ''GND''], parser = {1},
       path = [''Net''], strictness = FAILSAFE\<rparr>,
      [CannotConvert [''Net''] ''not_a_number'' ''int'' ''number'']) \<and>
   from_sexpr_cursor example_env ''Net''
     \<lparr>sexpr = PList [PSymbol ''net'', PSymbol ''not_a_number'', PSymbol ''GND''], parser = {},
      path = [''Net''], strictness = FAILSAFE\<rparr> []
   = (Inr (KiCadObject ''Net'' [(''number'', PInt 0), (''name'', PStr ''GND'')]),
      [CannotConvert [''Net''] ''not_a_number'' ''int'' ''number''])"
proof -
  let ?t = "PList [PSymbol ''net'', PSymbol ''not_a_number'', PSymbol ''GND''] :: int pyval"
  let ?cur = "\<lparr>sexpr = ?t, parser = {}, path = [''Net''], strictness = FAILSAFE\<rparr>"
  let ?cur2 = "\<lparr>sexpr = ?t, parser = {1}, path = [''Net''], strictness = FAILSAFE\<rparr>"
  let ?cur3 = "\<lparr>sexpr = ?t, parser = {2, 1}, path = [''Net''], strictness = FAILSAFE\<rparr>"
  let ?m = "CannotConvert [''Net''] ''not_a_number'' ''int'' ''number''"
  let ?fi = "\<lparr>name = ''number'', field_type = PRIMITIVE, inner_type = TInt, is_optional = False,
      is_list = False, token_name = None, position_index = 0\<rparr>"
  let ?g = "\<lparr>name = ''name'', field_type = PRIMITIVE, inner_type = TStr, is_optional = False,
      is_list = False, token_name = None, position_index = 1\<rparr>"
  let ?pv3 = "[''name'' \<mapsto> PStr ''GND''] :: string \<rightharpoonup> int pyval"
  let ?vs = "[(''number'', PInt 0), (''name'', PStr ''GND'')] :: (string \<times> int pyval) list"
  have cl: "classes example_env ''Net'' = Net_class"
    by (simp add: example_env_def example_classes_def)
  have fis: "classify_fields example_env ''Net'' = [] @ ?fi # [?g]"
    by (simp add: classify_Net[OF cl])
  have nt: "\<not> has_token ?fi"
    by (simp add: has_token_def)
  have cf: "conversion_fails example_env TInt (PSymbol ''not_a_number'')"
    by code_simp
  have gi: "py_getitem example_env (sexpr ?cur) (position_index ?fi + 1) = Inr (PSymbol ''not_a_number'')"
    by (simp add: py_getitem_def)
  have acc: "token_accepted example_env ''Net'' ?cur"
    by (simp add: token_accepted_def head_token_def py_getitem_def cl Net_class_def)
  have p1: "parse_fields (nested_from_sexpr example_env) example_env [] Map.empty ?cur [] = (Inr Map.empty, ?cur, [])"
    by simp
  note T = scalar_anomalies_graded[OF nt, where env = example_env and cur = ?cur and lg = "[]"
      and v = "PSymbol ''not_a_number''" and n = 3 and c = "''Net''" and ?cur0.0 = ?cur and ?lg0.0 = "[]"
      and pre = "[]" and post = "[?g]" and ?pv1.0 = Map.empty and ?cur2.0 = ?cur2 and ?lg2.0 = "[?m]"
      and ?pv3.0 = ?pv3 and ?cur3.0 = ?cur3 and ?lg3.0 = "[?m]" and vs = ?vs]
  have pp: "parse_primitive_field example_env ?fi ?cur [] = (Inr PNone, ?cur2, [?m])"
    using T[THEN conjunct2, THEN conjunct1] gi cf
    by (simp add: mark_used_def)
  have p3: "parse_fields (nested_from_sexpr example_env) example_env [?g] Map.empty ?cur2 [?m] = (Inr ?pv3, ?cur3, [?m])"
    by (simp add: parse_field_def parse_primitive_field_def has_token_def parse_positional_def
        parse_str_def get_value_at_index_def py_len_def py_getitem_def mark_used_def numeral_2_eq_2)
  have ini: "init_fields (class_fields (classes example_env ''Net'')) ?pv3 = Inr ?vs"
    by (simp add: cl Net_class_def)
  have hyp: "token_accepted example_env ''Net'' ?cur \<and> classify_fields example_env ''Net'' = [] @ ?fi # [?g] \<and>
     \<not> is_list ?fi \<and> field_type ?fi = PRIMITIVE \<and> name ?fi \<notin> name ` set ([] @ [?g]) \<and>
     parse_fields (nested_from_sexpr example_env) example_env [] Map.empty ?cur [] = (Inr Map.empty, ?cur, []) \<and>
     parse_primitive_field example_env ?fi ?cur [] = (Inr PNone, ?cur2, [?m]) \<and>
     parse_fields (nested_from_sexpr example_env) example_env [?g] Map.empty ?cur2 [?m] = (Inr ?pv3, ?cur3, [?m]) \<and>
     init_fields (class_fields (classes example_env ''Net'')) ?pv3 = Inr ?vs \<and>
     class_token_name (classes example_env ''Net'') \<noteq> []"
    using acc fis p1 pp p3 ini by (simp add: cl Net_class_def)
  have d: "from_sexpr_cursor example_env ''Net'' ?cur [] = (Inr (KiCadObject ''Net'' ?vs), [?m])"
    using T[THEN conjunct2, THEN conjunct2, THEN conjunct2, THEN conjunct2, THEN mp, OF hyp]
    by (rule conjunct1)
  show ?thesis using cf pp d by simp
qed

text \<open>
  C5 as stated fails for a conversion that fails with another exception: \<open>float\<close> of an
  integer too large raises \<open>OverflowError\<close>, which \<open>parse_float\<close> does not catch, so the
  decode of \<open>(die_length 1000...0)\<close> (the integer \<open>10 ^ 400\<close>) raises under Failsafe and
  under Silent instead of taking the default.
\<close>

theorem overflow_escapes_strictness:
  "py_float bounded_float_env (PInt (10 ^ 400)) = Inl OverflowError \<and>
   from_sexpr bounded_float_env ''DieLength'' (PList [PSymbol ''die_length'', PInt (10 ^ 400)]) FAILSAFE []
     = (Inl OverflowError, []) \<and>
   from_sexpr bounded_float_env ''DieLength'' (PList [PSymbol ''die_length'', PInt (10 ^ 400)]) SILENT []
     = (Inl OverflowError, [])"
  by code_simp

subsection \<open>Consumption tracker\<close>

text \<open>
  \<open>find_token\<close> and the known-token list loop never read the set of used indices: with
  any other set in the tracker they find the same match and decode the same elements.
  The unknown-token list loop reads it: what stands at a used position has no
  influence on its outcome.
\<close>

lemma find_token_ignores_tracker:
  "fst (find_token env tn (cur\<lparr>parser := used\<rparr>)) = fst (find_token env tn cur)"
  by (simp add: find_token_def split: sum.splits option.splits)

lemma parse_list_known_other_tracker:
  assumes "parse_list_known dec env fi items idx result cur lg = (r, c, l)"
    and "path cur2 = path cur" and "strictness cur2 = strictness cur"
  shows "\<exists>c2. parse_list_known dec env fi items idx result cur2 lg = (r, c2, l)"
  using assms
proof (induction items arbitrary: idx result cur cur2 lg)
  case Nil
  then show ?case by simp
next
  case (Cons item rest)
  have e: "enter (mark_used idx cur2) item p = enter (mark_used idx cur) item p" for p
    using Cons.prems by (simp add: enter_def mark_used_def)
  have m: "path (mark_used idx cur2) = path (mark_used idx cur)"
          "strictness (mark_used idx cur2) = strictness (mark_used idx cur)"
    using Cons.prems by (simp_all add: mark_used_def)
  show ?case
  proof (cases "case item of PList (h # t) \<Rightarrow> py_str env h = the_token fi | _ \<Rightarrow> False")
    case False
    then show ?thesis
      using Cons.prems Cons.IH[of "idx + 1" result cur lg cur2] by simp
  next
    case True
    obtain d lg1 where d: "dec (inner_type fi) item (enter (mark_used idx cur) item (element_path fi result)) lg = (d, lg1)"
      by (cases "dec (inner_type fi) item (enter (mark_used idx cur) item (element_path fi result)) lg")
    show ?thesis
    proof (cases d)
      case (Inl ex)
      then show ?thesis using True d e Cons.prems(1) by (simp add: Let_def)
    next
      case (Inr element)
      then show ?thesis
        using True d e Cons.prems(1)
          Cons.IH[of "idx + 1" "if element \<noteq> PNone then result @ [element] else result"
                     "mark_used idx cur" lg1 "mark_used idx cur2", OF _ m]
        by (simp add: Let_def)
    qed
  qed
qed

lemma parse_list_known_ignores_tracker:
  "fst (parse_list_known dec env fi items idx result (cur\<lparr>parser := used\<rparr>) lg)
     = fst (parse_list_known dec env fi items idx result cur lg) \<and>
   snd (snd (parse_list_known dec env fi items idx result (cur\<lparr>parser := used\<rparr>) lg))
     = snd (snd (parse_list_known dec env fi items idx result cur lg))"
proof -
  obtain r c l where p: "parse_list_known dec env fi items idx result cur lg = (r, c, l)"
    by (cases "parse_list_known dec env fi items idx result cur lg")
  from parse_list_known_other_tracker[OF p, of "cur\<lparr>parser := used\<rparr>"]
  obtain c2 where "parse_list_known dec env fi items idx result (cur\<lparr>parser := used\<rparr>) lg = (r, c2, l)"
    by auto
  then show ?thesis using p by simp
qed

lemma parse_list_unknown_skips_consumed:
  assumes "length items' = length items"
    and "\<forall>k < length items. idx + k \<notin> parser cur \<longrightarrow> items' ! k = items ! k"
  shows "parse_list_unknown dec env fi items' idx result cur lg
       = parse_list_unknown dec env fi items idx result cur lg"
  using assms
proof (induction items arbitrary: items' idx result cur lg)
  case Nil
  then show ?case by simp
next
  case (Cons item rest)
  then obtain item' rest' where i: "items' = item' # rest'" "length rest' = length rest"
    by (cases items') auto
  have h: "idx \<notin> parser cur \<Longrightarrow> item' = item"
    using Cons.prems(2) i by auto
  have r: "parse_list_unknown dec env fi rest' (idx + 1) result2 cur2 lg2
         = parse_list_unknown dec env fi rest (idx + 1) result2 cur2 lg2"
    if "parser cur \<subseteq> parser cur2" for result2 cur2 lg2
  proof (rule Cons.IH[OF i(2)])
    show "\<forall>k<length rest. idx + 1 + k \<notin> parser cur2 \<longrightarrow> rest' ! k = rest ! k"
    proof (intro allI impI)
      fix k assume k: "k < length rest" "idx + 1 + k \<notin> parser cur2"
      then have "idx + Suc k \<notin> parser cur" using that by auto
      then show "rest' ! k = rest ! k"
        using Cons.prems(2) i k(1) by (auto dest!: spec[of _ "Suc k"])
    qed
  qed
  have s: "parser cur \<subseteq> parser (mark_used idx cur)"
    by (auto simp: mark_used_def)
  show ?case
  proof (cases "idx \<in> parser cur")
    case True
    then show ?thesis using i r[of cur] by simp
  next
    case False
    then show ?thesis
      using i h r[of cur] r[OF s]
      by (simp add: Let_def split: prod.splits sum.splits)
  qed
qed

text \<open>
  C4, as the code has it. The unknown-token list collection never claims an element
  whose index is already marked used: two element lists that agree at every position
  not yet used give the same values, the same marks and the same log. Named-token
  lookup and known-token list collection do not consult the tracker: they return the
  same match and the same values whatever is marked.
\<close>

theorem tracker_read_only_by_unknown_list:
  "(length items' = length items \<and>
    (\<forall>k < length items. idx + k \<notin> parser cur \<longrightarrow> items' ! k = items ! k) \<longrightarrow>
      parse_list_unknown dec env fi items' idx result cur lg
        = parse_list_unknown dec env fi items idx result cur lg) \<and>
   fst (find_token env tn (cur\<lparr>parser := used\<rparr>)) = fst (find_token env tn cur) \<and>
   fst (parse_list_known dec env fi items idx result (cur\<lparr>parser := used\<rparr>) lg)
     = fst (parse_list_known dec env fi items idx result cur lg)"
proof (intro conjI impI)
  assume a: "length items' = length items \<and>
    (\<forall>k < length items. idx + k \<notin> parser cur \<longrightarrow> items' ! k = items ! k)"
  show "parse_list_unknown dec env fi items' idx result cur lg
        = parse_list_unknown dec env fi items idx result cur lg"
    by (rule parse_list_unknown_skips_consumed) (use a in simp_all)
next
  show "fst (find_token env tn (cur\<lparr>parser := used\<rparr>)) = fst (find_token env tn cur)"
    by (rule find_token_ignores_tracker)
next
  show "fst (parse_list_known dec env fi items idx result (cur\<lparr>parser := used\<rparr>) lg)
     = fst (parse_list_known dec env fi items idx result cur lg)"
    by (rule conjunct1[OF parse_list_known_ignores_tracker])
qed

text \<open>
  Two element lists that differ at the used position 1 only, read by the unknown-token
  loop of \<open>Group.items\<close>: the element at position 1 is passed over in both.
\<close>

theorem tracker_read_only_by_unknown_list_witness:
  "parse_list_unknown (\<lambda>t item c l. (wrapper_from_sexpr example_env t item (Some c), l)) example_env
      (hd (classify_fields example_env ''Group''))
      [PList [PSymbol ''y'', PInt 7], PList [PSymbol ''z'', PInt 3]] 1 []
      \<lparr>sexpr = PNone, parser = {1}, path = [''Group''], strictness = STRICT\<rparr> []
   = parse_list_unknown (\<lambda>t item c l. (wrapper_from_sexpr example_env t item (Some c), l)) example_env
      (hd (classify_fields example_env ''Group''))
      [PList [PSymbol ''x'', PInt 1], PList [PSymbol ''z'', PInt 3]] 1 []
      \<lparr>sexpr = PNone, parser = {1}, path = [''Group''], strictness = STRICT\<rparr> [] \<and>
   parse_list_unknown (\<lambda>t item c l. (wrapper_from_sexpr example_env t item (Some c), l)) example_env
      (hd (classify_fields example_env ''Group''))
      [PList [PSymbol ''x'', PInt 1], PList [PSymbol ''z'', PInt 3]] 1 []
      \<lparr>sexpr = PNone, parser = {1}, path = [''Group''], strictness = STRICT\<rparr> []
   = (Inr [KiCadPrimitive KiCadInt ''z'' (PInt 3) True],
      \<lparr>sexpr = PNone, parser = {1, 2}, path = [''Group''], strictness = STRICT\<rparr>, [])"
proof -
  let ?cur = "\<lparr>sexpr = PNone :: int pyval, parser = {1}, path = [''Group''], strictness = STRICT\<rparr>"
  let ?a = "[PList [PSymbol ''y'', PInt 7], PList [PSymbol ''z'', PInt 3]] :: int pyval list"
  let ?b = "[PList [PSymbol ''x'', PInt 1], PList [PSymbol ''z'', PInt 3]] :: int pyval list"
  have h: "length ?a = length ?b \<and> (\<forall>k < length ?b. 1 + k \<notin> parser ?cur \<longrightarrow> ?a ! k = ?b ! k)"
    by (simp add: less_Suc_eq)
  have e: "parse_list_unknown (\<lambda>t item c l. (wrapper_from_sexpr example_env t item (Some c), l)) example_env
      (hd (classify_fields example_env ''Group'')) ?b 1 [] ?cur []
   = (Inr [KiCadPrimitive KiCadInt ''z'' (PInt 3) True],
      \<lparr>sexpr = PNone, parser = {1, 2}, path = [''Group''], strictness = STRICT\<rparr>, [])"
    by code_simp
  show ?thesis
    using h e tracker_read_only_by_unknown_list[where items' = ?a and items = ?b and idx = 1 and cur = ?cur
        and dec = "\<lambda>t item c l. (wrapper_from_sexpr example_env t item (Some c), l)"
        and env = example_env and fi = "hd (classify_fields example_env ''Group'')" and result = "[]" and lg = "[]"]
    by simp
qed

text \<open>
  C4 as stated fails for named-token lookup and for known-token list collection. In
  \<open>(marker hide)\<close> the positional field \<open>label\<close> consumes index 1, and the lookup of the
  token \<open>hide\<close> for the next field then matches the element at index 1 again. In
  \<open>(nets2 (net 1 A))\<close> the field \<open>first\<close> consumes index 1 by name, and the list field
  \<open>nets\<close> collects the same element again.
\<close>

theorem consumed_element_claimed_again:
  "parse_field (\<lambda>t item c l. (wrapper_from_sexpr example_env t item (Some c), l)) example_env
      (classify_fields example_env ''Marker'' ! 0)
      \<lparr>sexpr = PList [PSymbol ''marker'', PSymbol ''hide''], parser = {}, path = [''Marker''], strictness = STRICT\<rparr> []
   = (Inr (PStr ''hide''),
      \<lparr>sexpr = PList [PSymbol ''marker'', PSymbol ''hide''], parser = {1}, path = [''Marker''], strictness = STRICT\<rparr>, []) \<and>
   find_token_scan example_env ''hide'' [PSymbol ''hide''] 1 = Some (1, [PSymbol ''hide'']) \<and>
   parse_field (\<lambda>t item c l. (wrapper_from_sexpr example_env t item (Some c), l)) example_env
      (classify_fields example_env ''Marker'' ! 1)
      \<lparr>sexpr = PList [PSymbol ''marker'', PSymbol ''hide''], parser = {1}, path = [''Marker''], strictness = STRICT\<rparr> []
   = (Inr (OptionalFlag ''hide'' None False),
      \<lparr>sexpr = PList [PSymbol ''marker'', PSymbol ''hide''], parser = {1}, path = [''Marker''], strictness = STRICT\<rparr>, []) \<and>
   from_sexpr example_env ''Marker'' (PList [PSymbol ''marker'', PSymbol ''hide'']) STRICT []
   = (Inr (KiCadObject ''Marker'' [(''label'', PStr ''hide''), (''hide'', OptionalFlag ''hide'' None False)]), []) \<and>
   from_sexpr example_env ''Nets2'' (PList [PSymbol ''nets2'', PList [PSymbol ''net'', PInt 1, PSymbol ''A'']]) STRICT []
   = (Inr (KiCadObject ''Nets2''
        [(''first'', KiCadObject ''Net'' [(''number'', PInt 1), (''name'', PStr ''A'')]),
         (''nets'', PList [KiCadObject ''Net'' [(''number'', PInt 1), (''name'', PStr ''A'')]])]), [])"
  by code_simp

subsection \<open>Element failures in list fields\<close>

text \<open>
  One turn of each list loop, at an element that stands behind a prefix already scanned:
  the known-token loop marks the element and decodes it, and an exception of the
  decode is the outcome of the loop; the unknown-token loop decodes the element, goes on
  without it when the decode raises \<open>ValueError\<close> or \<open>TypeError\<close> or returns \<open>None\<close>,
  and marks and appends it otherwise. Both loops only ever append to the result.
\<close>

lemma parse_list_known_at:
  assumes "parse_list_known dec env fi pre idx result cur lg = (Inr result1, cur1, lg1)"
    and "item = PList (h # t)" and "py_str env h = the_token fi"
  shows "parse_list_known dec env fi (pre @ item # rest) idx result cur lg =
     (case dec (inner_type fi) item
             (enter (mark_used (idx + length pre) cur1) item (element_path fi result1)) lg1 of
        (Inl e, lg2) \<Rightarrow> (Inl e, mark_used (idx + length pre) cur1, lg2)
      | (Inr element, lg2) \<Rightarrow>
          parse_list_known dec env fi rest (idx + length pre + 1)
            (if element \<noteq> PNone then result1 @ [element] else result1)
            (mark_used (idx + length pre) cur1) lg2)"
  using assms by (simp add: parse_list_known_append Let_def)

lemma parse_list_unknown_at:
  assumes "parse_list_unknown dec env fi pre idx result cur lg = (Inr result1, cur1, lg1)"
    and "is_pylist item" and "idx + length pre \<notin> parser cur1"
  shows "parse_list_unknown dec env fi (pre @ item # rest) idx result cur lg =
     (case dec (inner_type fi) item (enter cur1 item (element_path fi result1)) lg1 of
        (Inl e, lg2) \<Rightarrow>
          if is_value_or_type_error e
          then parse_list_unknown dec env fi rest (idx + length pre + 1) result1 cur1 lg2
          else (Inl e, cur1, lg2)
      | (Inr element, lg2) \<Rightarrow>
          if element \<noteq> PNone
          then parse_list_unknown dec env fi rest (idx + length pre + 1) (result1 @ [element])
                 (mark_used (idx + length pre) cur1) lg2
          else parse_list_unknown dec env fi rest (idx + length pre + 1) result1 cur1 lg2)"
  using assms by (simp add: parse_list_unknown_append Let_def)

lemma parse_list_known_extends:
  "parse_list_known dec env fi xs idx result cur lg = (Inr result', cur', lg') \<Longrightarrow>
   \<exists>ys. result' = result @ ys"
proof (induction xs arbitrary: idx result cur lg)
  case Nil
  then show ?case by simp
next
  case (Cons x xs)
  from Cons.prems show ?case
    by (auto simp: Let_def split: if_splits prod.splits sum.splits dest!: Cons.IH)
qed

lemma parse_list_unknown_extends:
  "parse_list_unknown dec env fi xs idx result cur lg = (Inr result', cur', lg') \<Longrightarrow>
   \<exists>ys. result' = result @ ys"
proof (induction xs arbitrary: idx result cur lg)
  case Nil
  then show ?case by simp
next
  case (Cons x xs)
  from Cons.prems show ?case
    by (auto simp: Let_def split: if_splits prod.splits sum.splits dest!: Cons.IH)
qed

text \<open>
  C6, as the code has it. Take a self-parsing list field of a class, the fields before
  it bound, and an element of the term behind a prefix of elements already scanned. The
  strictness of the cursor is arbitrary throughout: the list loops never read it.

  Known-token variety, at an element whose head is the field's token: if the decode of
  the element raises, the whole decode raises that exception, under every strictness;
  if it returns, the field is bound by scanning the remaining elements with the
  element appended (unless it is \<open>None\<close>) and its index marked.

  Unknown-token variety, at a nested list whose index is not marked: if the decode of
  the element raises \<open>ValueError\<close> or \<open>TypeError\<close>, or returns \<open>None\<close>, the field is bound
  by scanning the remaining elements with the result and the marks as they were, under
  every strictness; if it raises another exception, the whole decode raises it; if it
  returns an instance, the field is bound by scanning the remaining elements with the
  instance appended and its index marked.

  In both varieties the result of a scan is the result it started from, extended at
  the end: the elements are collected in input order.
\<close>

theorem list_element_failures:
  assumes acc: "token_accepted env c cur0"
    and fis: "classify_fields env c = fpre @ fi # fpost"
    and lst: "is_list fi \<and> can_self_parse fi"
    and p1: "parse_fields (nested_from_sexpr env) env fpre Map.empty cur0 lg0 = (Inr pv1, cur, lg)"
    and items: "py_items_from1 env (sexpr cur) = Inr (pre @ item # rest)"
  shows
   "(has_token fi \<and> item = PList (h # t) \<and> py_str env h = the_token fi \<and>
     parse_list_known (nested_from_sexpr env) env fi pre 1 [] cur lg = (Inr result1, cur1, lg1) \<longrightarrow>
       (nested_from_sexpr env (inner_type fi) item
          (enter (mark_used (length pre + 1) cur1) item (element_path fi result1)) lg1 = (Inl e, lg2) \<longrightarrow>
        from_sexpr_cursor env c cur0 lg0 = (Inl e, lg2)) \<and>
       (nested_from_sexpr env (inner_type fi) item
          (enter (mark_used (length pre + 1) cur1) item (element_path fi result1)) lg1 = (Inr element, lg2) \<longrightarrow>
        parse_field (nested_from_sexpr env) env fi cur lg =
          (case parse_list_known (nested_from_sexpr env) env fi rest (length pre + 2)
                  (if element \<noteq> PNone then result1 @ [element] else result1)
                  (mark_used (length pre + 1) cur1) lg2 of
             (r, cur', lg') \<Rightarrow> (map_sum id PList r, cur', lg')))) \<and>
    (\<not> has_token fi \<and> is_pylist item \<and> length pre + 1 \<notin> parser cur1 \<and>
     parse_list_unknown (nested_from_sexpr env) env fi pre 1 [] cur lg = (Inr result1, cur1, lg1) \<longrightarrow>
       (nested_from_sexpr env (inner_type fi) item (enter cur1 item (element_path fi result1)) lg1
          = (Inl e, lg2) \<and> is_value_or_type_error e \<longrightarrow>
        parse_field (nested_from_sexpr env) env fi cur lg =
          (case parse_list_unknown (nested_from_sexpr env) env fi rest (length pre + 2) result1 cur1 lg2 of
             (r, cur', lg') \<Rightarrow> (map_sum id PList r, cur', lg'))) \<and>
       (nested_from_sexpr env (inner_type fi) item (enter cur1 item (element_path fi result1)) lg1
          = (Inr PNone, lg2) \<longrightarrow>
        parse_field (nested_from_sexpr env) env fi cur lg =
          (case parse_list_unknown (nested_from_sexpr env) env fi rest (length pre + 2) result1 cur1 lg2 of
             (r, cur', lg') \<Rightarrow> (map_sum id PList r, cur', lg'))) \<and>
       (nested_from_sexpr env (inner_type fi) item (enter cur1 item (element_path fi result1)) lg1
          = (Inl e, lg2) \<and> \<not> is_value_or_type_error e \<longrightarrow>
        from_sexpr_cursor env c cur0 lg0 = (Inl e, lg2)) \<and>
       (nested_from_sexpr env (inner_type fi) item (enter cur1 item (element_path fi result1)) lg1
          = (Inr element, lg2) \<and> element \<noteq> PNone \<longrightarrow>
        parse_field (nested_from_sexpr env) env fi cur lg =
          (case parse_list_unknown (nested_from_sexpr env) env fi rest (length pre + 2)
                  (result1 @ [element]) (mark_used (length pre + 1) cur1) lg2 of
             (r, cur', lg') \<Rightarrow> (map_sum id PList r, cur', lg')))) \<and>
    (parse_list_known (nested_from_sexpr env) env fi xs idx result cur2 lg3 = (Inr result', cur3, lg4) \<longrightarrow>
       (\<exists>ys. result' = result @ ys)) \<and>
    (parse_list_unknown (nested_from_sexpr env) env fi xs idx result cur2 lg3 = (Inr result', cur3, lg4) \<longrightarrow>
       (\<exists>ys. result' = result @ ys))"
proof -
  let ?dec = "nested_from_sexpr env"
  have pfk: "parse_field ?dec env fi cur lg =
      (case parse_list_known ?dec env fi (pre @ item # rest) 1 [] cur lg of
         (r, cur', lg') \<Rightarrow> (map_sum id PList r, cur', lg'))" if "has_token fi"
    using lst items that by (simp add: parse_field_def parse_list_field_def)
  have pfu: "parse_field ?dec env fi cur lg =
      (case parse_list_unknown ?dec env fi (pre @ item # rest) 1 [] cur lg of
         (r, cur', lg') \<Rightarrow> (map_sum id PList r, cur', lg'))" if "\<not> has_token fi"
    using lst items that by (simp add: parse_field_def parse_list_field_def)
  have abort: "from_sexpr_cursor env c cur0 lg0 = (Inl e', l)"
    if "parse_field ?dec env fi cur lg = (Inl e', c', l)" for e' c' l
    using field_error_aborts_decode[OF acc fis p1 that] .
  have K1: "from_sexpr_cursor env c cur0 lg0 = (Inl e, lg2)"
    if h: "has_token fi \<and> item = PList (h # t) \<and> py_str env h = the_token fi \<and>
           parse_list_known ?dec env fi pre 1 [] cur lg = (Inr result1, cur1, lg1)"
      and d: "?dec (inner_type fi) item
          (enter (mark_used (length pre + 1) cur1) item (element_path fi result1)) lg1 = (Inl e, lg2)"
  proof -
    have "parse_list_known ?dec env fi (pre @ item # rest) 1 [] cur lg
            = (Inl e, mark_used (length pre + 1) cur1, lg2)"
      using parse_list_known_at[of ?dec env fi pre 1 "[]" cur lg result1 cur1 lg1 item h t rest] h d
      by simp
    then have "parse_field ?dec env fi cur lg = (Inl e, mark_used (length pre + 1) cur1, lg2)"
      using pfk h by simp
    then show ?thesis by (rule abort)
  qed
  have K2: "parse_field ?dec env fi cur lg =
          (case parse_list_known ?dec env fi rest (length pre + 2)
                  (if element \<noteq> PNone then result1 @ [element] else result1)
                  (mark_used (length pre + 1) cur1) lg2 of
             (r, cur', lg') \<Rightarrow> (map_sum id PList r, cur', lg'))"
    if h: "has_token fi \<and> item = PList (h # t) \<and> py_str env h = the_token fi \<and>
           parse_list_known ?dec env fi pre 1 [] cur lg = (Inr result1, cur1, lg1)"
      and d: "?dec (inner_type fi) item
          (enter (mark_used (length pre + 1) cur1) item (element_path fi result1)) lg1 = (Inr element, lg2)"
  proof -
    have "parse_list_known ?dec env fi (pre @ item # rest) 1 [] cur lg
            = parse_list_known ?dec env fi rest (length pre + 2)
                  (if element \<noteq> PNone then result1 @ [element] else result1)
                  (mark_used (length pre + 1) cur1) lg2"
      using parse_list_known_at[of ?dec env fi pre 1 "[]" cur lg result1 cur1 lg1 item h t rest] h d
      by simp
    then show ?thesis using pfk h by simp
  qed
  have U: "parse_list_unknown ?dec env fi (pre @ item # rest) 1 [] cur lg =
     (case ?dec (inner_type fi) item (enter cur1 item (element_path fi result1)) lg1 of
        (Inl e, lg2) \<Rightarrow>
          if is_value_or_type_error e
          then parse_list_unknown ?dec env fi rest (length pre + 2) result1 cur1 lg2
          else (Inl e, cur1, lg2)
      | (Inr element, lg2) \<Rightarrow>
          if element \<noteq> PNone
          then parse_list_unknown ?dec env fi rest (length pre + 2) (result1 @ [element])
                 (mark_used (length pre + 1) cur1) lg2
          else parse_list_unknown ?dec env fi rest (length pre + 2) result1 cur1 lg2)"
    if h: "\<not> has_token fi \<and> is_pylist item \<and> length pre + 1 \<notin> parser cur1 \<and>
           parse_list_unknown ?dec env fi pre 1 [] cur lg = (Inr result1, cur1, lg1)"
  proof -
    have a: "1 + length pre = length pre + 1" and b: "length pre + 1 + 1 = length pre + 2"
      by simp_all
    show ?thesis
      using parse_list_unknown_at[of ?dec env fi pre 1 "[]" cur lg result1 cur1 lg1 item rest] h
      unfolding a b by simp
  qed
  have U1: "parse_field ?dec env fi cur lg =
          (case parse_list_unknown ?dec env fi rest (length pre + 2) result1 cur1 lg2 of
             (r, cur', lg') \<Rightarrow> (map_sum id PList r, cur', lg'))"
    if h: "\<not> has_token fi \<and> is_pylist item \<and> length pre + 1 \<notin> parser cur1 \<and>
           parse_list_unknown ?dec env fi pre 1 [] cur lg = (Inr result1, cur1, lg1)"
      and d: "?dec (inner_type fi) item (enter cur1 item (element_path fi result1)) lg1 = (Inl e, lg2)
              \<and> is_value_or_type_error e"
    using U[OF h] d pfu h by simp
  have U2: "parse_field ?dec env fi cur lg =
          (case parse_list_unknown ?dec env fi rest (length pre + 2) result1 cur1 lg2 of
             (r, cur', lg') \<Rightarrow> (map_sum id PList r, cur', lg'))"
    if h: "\<not> has_token fi \<and> is_pylist item \<and> length pre + 1 \<notin> parser cur1 \<and>
           parse_list_unknown ?dec env fi pre 1 [] cur lg = (Inr result1, cur1, lg1)"
      and d: "?dec (inner_type fi) item (enter cur1 item (element_path fi result1)) lg1 = (Inr PNone, lg2)"
    using U[OF h] d pfu h by simp
  have U3: "from_sexpr_cursor env c cur0 lg0 = (Inl e, lg2)"
    if h: "\<not> has_token fi \<and> is_pylist item \<and> length pre + 1 \<notin> parser cur1 \<and>
           parse_list_unknown ?dec env fi pre 1 [] cur lg = (Inr result1, cur1, lg1)"
      and d: "?dec (inner_type fi) item (enter cur1 item (element_path fi result1)) lg1 = (Inl e, lg2)
              \<and> \<not> is_value_or_type_error e"
  proof -
    have "parse_field ?dec env fi cur lg = (Inl e, cur1, lg2)"
      using U[OF h] d pfu h by simp
    then show ?thesis by (rule abort)
  qed
  have U4: "parse_field ?dec env fi cur lg =
          (case parse_list_unknown ?dec env fi rest (length pre + 2)
                  (result1 @ [element]) (mark_used (length pre + 1) cur1) lg2 of
             (r, cur', lg') \<Rightarrow> (map_sum id PList r, cur', lg'))"
    if h: "\<not> has_token fi \<and> is_pylist item \<and> length pre + 1 \<notin> parser cur1 \<and>
           parse_list_unknown ?dec env fi pre 1 [] cur lg = (Inr result1, cur1, lg1)"
      and d: "?dec (inner_type fi) item (enter cur1 item (element_path fi result1)) lg1 = (Inr element, lg2)
              \<and> element \<noteq> PNone"
    using U[OF h] d pfu h by simp
  have E1: "\<exists>ys. result' = result @ ys"
    if "parse_list_known ?dec env fi xs idx result cur2 lg3 = (Inr result', cur3, lg4)"
    using that by (rule parse_list_known_extends)
  have E2: "\<exists>ys. result' = result @ ys"
    if "parse_list_unknown ?dec env fi xs idx result cur2 lg3 = (Inr result', cur3, lg4)"
    using that by (rule parse_list_unknown_extends)
  show ?thesis
    using K1 K2 U1 U2 U3 U4 E1 E2 by blast
qed

text \<open>
  \<open>(lengths (die_length 1) (die_length abc))\<close> under Strict: the second element raises
  and so does the decode. \<open>(group (x 1) (y abc) (z 3))\<close> under Strict: the second
  element decodes to \<open>None\<close> and the field is bound to the first and the third.
\<close>

theorem list_element_failures_witness:
  "from_sexpr_cursor lengths_env ''Lengths''
     \<lparr>sexpr = PList [PSymbol ''lengths'', PList [PSymbol ''die_length'', PInt 1],
                     PList [PSymbol ''die_length'', PSymbol ''abc'']],
      parser = {}, path = [''Lengths''], strictness = STRICT\<rparr> []
   = (Inl (ValueError (CannotConvert [''Lengths'', ''items[1]''] ''abc'' ''float'' ''length'')), []) \<and>
   parse_field (nested_from_sexpr example_env) example_env
     \<lparr>name = ''items'', field_type = SEXPR_BASE, inner_type = TKiCadPrimitive KiCadInt,
      is_optional = False, is_list = True, token_name = Some [], position_index = 0\<rparr>
     \<lparr>sexpr = PList [PSymbol ''group'', PList [PSymbol ''x'', PInt 1],
                     PList [PSymbol ''y'', PSymbol ''abc''], PList [PSymbol ''z'', PInt 3]],
      parser = {}, path = [''Group''], strictness = STRICT\<rparr> []
   = (Inr (PList [KiCadPrimitive KiCadInt ''x'' (PInt 1) True, KiCadPrimitive KiCadInt ''z'' (PInt 3) True]),
      \<lparr>sexpr = PList [PSymbol ''group'', PList [PSymbol ''x'', PInt 1],
                      PList [PSymbol ''y'', PSymbol ''abc''], PList [PSymbol ''z'', PInt 3]],
       parser = {3, 1}, path = [''Group''], strictness = STRICT\<rparr>, [])"
proof -
  let ?t = "PList [PSymbol ''lengths'', PList [PSymbol ''die_length'', PInt 1],
                   PList [PSymbol ''die_length'', PSymbol ''abc'']] :: int pyval"
  let ?cur = "\<lparr>sexpr = ?t, parser = {}, path = [''Lengths''], strictness = STRICT\<rparr>"
  let ?cur1 = "\<lparr>sexpr = ?t, parser = {1}, path = [''Lengths''], strictness = STRICT\<rparr>"
  let ?fi = "\<lparr>name = ''items'', field_type = SEXPR_BASE, inner_type = TKiCadObject ''DieLength'',
      is_optional = False, is_list = True, token_name = Some ''die_length'', position_index = 0\<rparr>"
  let ?e = "ValueError (CannotConvert [''Lengths'', ''items[1]''] ''abc'' ''float'' ''length'')"
  let ?r1 = "[KiCadObject ''DieLength'' [(''length'', PFloat 1)]] :: int pyval list"
  have acc: "token_accepted lengths_env ''Lengths'' ?cur"
    by code_simp
  have fis: "classify_fields lengths_env ''Lengths'' = [] @ ?fi # []"
    by code_simp
  have lst: "is_list ?fi \<and> can_self_parse ?fi"
    by code_simp
  have p1: "parse_fields (nested_from_sexpr lengths_env) lengths_env [] Map.empty ?cur [] = (Inr Map.empty, ?cur, [])"
    by simp
  have items: "py_items_from1 lengths_env (sexpr ?cur)
      = Inr ([PList [PSymbol ''die_length'', PInt 1]] @ PList [PSymbol ''die_length'', PSymbol ''abc''] # [])"
    by code_simp
  note T = list_element_failures[OF acc fis lst p1 items, where h = "PSymbol ''die_length''"
      and t = "[PSymbol ''abc'']" and ?result1.0 = ?r1 and ?cur1.0 = ?cur1 and ?lg1.0 = "[]"
      and e = ?e and ?lg2.0 = "[]"]
  have hk: "has_token ?fi \<and>
      (PList [PSymbol ''die_length'', PSymbol ''abc''] :: int pyval) = PList (PSymbol ''die_length'' # [PSymbol ''abc'']) \<and>
      py_str lengths_env (PSymbol ''die_length'') = the_token ?fi \<and>
      parse_list_known (nested_from_sexpr lengths_env) lengths_env ?fi [PList [PSymbol ''die_length'', PInt 1]]
        1 [] ?cur [] = (Inr ?r1, ?cur1, [])"
    by code_simp
  have d: "nested_from_sexpr lengths_env (inner_type ?fi) (PList [PSymbol ''die_length'', PSymbol ''abc''])
      (enter (mark_used (length ([PList [PSymbol ''die_length'', PInt 1]] :: int pyval list) + 1) ?cur1)
         (PList [PSymbol ''die_length'', PSymbol ''abc'']) (element_path ?fi ?r1)) [] = (Inl ?e, [])"
    by code_simp
  have w1: "from_sexpr_cursor lengths_env ''Lengths'' ?cur [] = (Inl ?e, [])"
    using T[THEN conjunct1, THEN mp, OF hk, THEN conjunct1, THEN mp, OF d] .
  let ?tg = "PList [PSymbol ''group'', PList [PSymbol ''x'', PInt 1],
                     PList [PSymbol ''y'', PSymbol ''abc''], PList [PSymbol ''z'', PInt 3]] :: int pyval"
  let ?gcur = "\<lparr>sexpr = ?tg, parser = {}, path = [''Group''], strictness = STRICT\<rparr>"
  let ?gcur1 = "\<lparr>sexpr = ?tg, parser = {1}, path = [''Group''], strictness = STRICT\<rparr>"
  let ?gcur3 = "\<lparr>sexpr = ?tg, parser = {3, 1}, path = [''Group''], strictness = STRICT\<rparr>"
  let ?gfi = "\<lparr>name = ''items'', field_type = SEXPR_BASE, inner_type = TKiCadPrimitive KiCadInt,
      is_optional = False, is_list = True, token_name = Some [], position_index = 0\<rparr>"
  let ?g1 = "[KiCadPrimitive KiCadInt ''x'' (PInt 1) True] :: int pyval list"
  have gacc: "token_accepted example_env ''Group'' ?gcur"
    by code_simp
  have gfis: "classify_fields example_env ''Group'' = [] @ ?gfi # []"
    by code_simp
  have glst: "is_list ?gfi \<and> can_self_parse ?gfi"
    by code_simp
  have gp1: "parse_fields (nested_from_sexpr example_env) example_env [] Map.empty ?gcur [] = (Inr Map.empty, ?gcur, [])"
    by simp
  have gitems: "py_items_from1 example_env (sexpr ?gcur)
      = Inr ([PList [PSymbol ''x'', PInt 1]] @ PList [PSymbol ''y'', PSymbol ''abc''] # [PList [PSymbol ''z'', PInt 3]])"
    by code_simp
  note G = list_element_failures[OF gacc gfis glst gp1 gitems, where ?result1.0 = ?g1
      and ?cur1.0 = ?gcur1 and ?lg1.0 = "[]" and ?lg2.0 = "[]"]
  have hu: "\<not> has_token ?gfi \<and> is_pylist (PList [PSymbol ''y'', PSymbol ''abc''] :: int pyval) \<and>
      length ([PList [PSymbol ''x'', PInt 1]] :: int pyval list) + 1 \<notin> parser ?gcur1 \<and>
      parse_list_unknown (nested_from_sexpr example_env) example_env ?gfi [PList [PSymbol ''x'', PInt 1]]
        1 [] ?gcur [] = (Inr ?g1, ?gcur1, [])"
    by code_simp
  have gd: "nested_from_sexpr example_env (inner_type ?gfi) (PList [PSymbol ''y'', PSymbol ''abc''])
      (enter ?gcur1 (PList [PSymbol ''y'', PSymbol ''abc'']) (element_path ?gfi ?g1)) [] = (Inr PNone, [])"
    by code_simp
  have "parse_field (nested_from_sexpr example_env) example_env ?gfi ?gcur [] =
          (case parse_list_unknown (nested_from_sexpr example_env) example_env ?gfi [PList [PSymbol ''z'', PInt 3]]
                  (length ([PList [PSymbol ''x'', PInt 1]] :: int pyval list) + 2) ?g1 ?gcur1 [] of
             (r, cur', lg') \<Rightarrow> (map_sum id PList r, cur', lg'))"
    using G[THEN conjunct2, THEN conjunct1, THEN mp, OF hu, THEN conjunct2, THEN conjunct1, THEN mp, OF gd] .
  also have "\<dots> = (Inr (PList [KiCadPrimitive KiCadInt ''x'' (PInt 1) True, KiCadPrimitive KiCadInt ''z'' (PInt 3) True]),
      ?gcur3, [])"
    by code_simp
  finally have w2: "parse_field (nested_from_sexpr example_env) example_env ?gfi ?gcur [] =
     (Inr (PList [KiCadPrimitive KiCadInt ''x'' (PInt 1) True, KiCadPrimitive KiCadInt ''z'' (PInt 3) True]),
      ?gcur3, [])" .
  show ?thesis using w1 w2 by simp
qed

text \<open>
  C6 as stated fails in both directions. Under Strict the unknown-token loop skips an
  element whose decode fails: \<open>(line 1)\<close> is no \<open>KiCadObject\<close> (its decode raises
  \<open>ValueError\<close>), yet \<open>(shapes (line 1))\<close> decodes to an empty list, and
  \<open>(group (x 1) (y abc) (z 3))\<close> decodes to the first and the third element. Under
  Failsafe and Silent the known-token loop skips nothing: an element with an anomaly is
  collected with the default at that field, and an element whose decode raises aborts
  the whole decode.
\<close>

theorem element_failure_ignores_strictness:
  "from_sexpr example_env ''KiCadObject'' (PList [PSymbol ''line'', PInt 1]) STRICT []
     = (Inl (ValueError (TokenMismatch [''KiCadObject''] [] ''line'')), []) \<and>
   from_sexpr example_env ''Shapes'' (PList [PSymbol ''shapes'', PList [PSymbol ''line'', PInt 1]]) STRICT []
     = (Inr (KiCadObject ''Shapes'' [(''items'', PList [])]), []) \<and>
   from_sexpr example_env ''Group''
       (PList [PSymbol ''group'', PList [PSymbol ''x'', PInt 1], PList [PSymbol ''y'', PSymbol ''abc''],
               PList [PSymbol ''z'', PInt 3]]) STRICT []
     = (Inr (KiCadObject ''Group''
          [(''items'', PList [KiCadPrimitive KiCadInt ''x'' (PInt 1) True,
                              KiCadPrimitive KiCadInt ''z'' (PInt 3) True])]), []) \<and>
   from_sexpr lengths_env ''Lengths''
       (PList [PSymbol ''lengths'', PList [PSymbol ''die_length'', PInt 1],
               PList [PSymbol ''die_length'', PSymbol ''abc''], PList [PSymbol ''die_length'', PInt 2]]) FAILSAFE []
     = (Inr (KiCadObject ''Lengths''
          [(''items'', PList [KiCadObject ''DieLength'' [(''length'', PFloat 1)],
                              KiCadObject ''DieLength'' [(''length'', PFloat 0)],
                              KiCadObject ''DieLength'' [(''length'', PFloat 2)]])]),
        [CannotConvert [''Lengths'', ''items[1]''] ''abc'' ''float'' ''length'']) \<and>
   from_sexpr lengths_env ''DieLength'' (PList [PSymbol ''die_length'', PInt (10 ^ 400)]) FAILSAFE []
     = (Inl OverflowError, []) \<and>
   from_sexpr lengths_env ''Lengths''
       (PList [PSymbol ''lengths'', PList [PSymbol ''die_length'', PInt 1],
               PList [PSymbol ''die_length'', PInt (10 ^ 400)], PList [PSymbol ''die_length'', PInt 2]]) FAILSAFE []
     = (Inl OverflowError, []) \<and>
   from_sexpr lengths_env ''Lengths''
       (PList [PSymbol ''lengths'', PList [PSymbol ''die_length'', PInt 1],
               PList [PSymbol ''die_length'', PInt (10 ^ 400)], PList [PSymbol ''die_length'', PInt 2]]) SILENT []
     = (Inl OverflowError, [])"
  by code_simp

end
